theory Spec2Isabelle
  imports Complex_Main "HOL-Library.Sublist"
begin

section \<open>The crop tool of App.tsx: data model\<close>

text \<open>
  The component \<^verbatim>\<open>App\<close> of \<^verbatim>\<open>src/App.tsx\<close> keeps its state in React state cells and
  changes it in event handlers. Each handler is modelled as a function from the state
  before the event to the state after it. JavaScript numbers are modelled as \<open>real\<close>
  (the crop rectangle, the zoom factor, pointer positions), and the handlers compute on
  them exactly. Where the rounding of IEEE doubles decides a property, the handler has a
  second definition that rounds the result of every arithmetic operation
  (\<open>applyAspectRatio_rounded\<close> below). The rotation angle only ever receives integers
  (\<^verbatim>\<open>parseInt\<close>, \<^verbatim>\<open>rotation \<plusminus> 90\<close>, the preset angles) and is an \<open>int\<close>.
\<close>

record CropArea =
  crop_x :: real
  crop_y :: real
  crop_width :: real
  crop_height :: real

text \<open>
  \<^verbatim>\<open>interface AspectRatio { name: string; value: number | null; icon: string }\<close>.
  The icon is a glyph for the button and is left out.
\<close>

record AspectRatio =
  ratio_name :: string
  ratio_value :: "real option"

definition aspectRatios :: "AspectRatio list" where
  "aspectRatios =
    [\<lparr>ratio_name = ''Free'', ratio_value = None\<rparr>,
     \<lparr>ratio_name = ''1:1'', ratio_value = Some 1\<rparr>,
     \<lparr>ratio_name = ''4:3'', ratio_value = Some (4 / 3)\<rparr>,
     \<lparr>ratio_name = ''16:9'', ratio_value = Some (16 / 9)\<rparr>,
     \<lparr>ratio_name = ''3:2'', ratio_value = Some (3 / 2)\<rparr>,
     \<lparr>ratio_name = ''2:3'', ratio_value = Some (2 / 3)\<rparr>,
     \<lparr>ratio_name = ''9:16'', ratio_value = Some (9 / 16)\<rparr>]"

datatype HandlePosition = NW | N | NE | E | SE | S | SW | W

datatype DragType = Move | Handle HandlePosition

text \<open>
  The test \<^verbatim>\<open>if (selectedRatio.value)\<close> on a \<^verbatim>\<open>number | null\<close>: \<^verbatim>\<open>null\<close> and \<^verbatim>\<open>0\<close>
  are falsy, every other real number is truthy.
\<close>

fun truthy :: "real option \<Rightarrow> bool" where
  "truthy None = False"
| "truthy (Some r) = (r \<noteq> 0)"

record AppState =
  imageUrl :: "string option"
  imageName :: string
  isDraggingFile :: bool
  urlInput :: string
  showUrlInput :: bool
  imageError :: "string option"
  zoom :: real
  rotation :: int
  cropArea :: CropArea
  selectedRatio :: AspectRatio
  isDragging :: bool
  dragType :: "DragType option"
  dragStart :: "real \<times> real"
  initialCrop :: CropArea

definition containerWidth :: real where
  "containerWidth = 500"

definition containerHeight :: real where
  "containerHeight = 375"

definition minSize :: real where
  "minSize = 50"

text \<open>The arguments of the \<^verbatim>\<open>useState\<close> calls: the state of a freshly mounted component.\<close>

definition initialState :: AppState where
  "initialState =
    \<lparr>imageUrl = None, imageName = [], isDraggingFile = False, urlInput = [],
     showUrlInput = False, imageError = None, zoom = 1, rotation = 0,
     cropArea = \<lparr>crop_x = 100, crop_y = 75, crop_width = 300, crop_height = 225\<rparr>,
     selectedRatio = aspectRatios ! 0, isDragging = False, dragType = None,
     dragStart = (0, 0),
     initialCrop = \<lparr>crop_x = 0, crop_y = 0, crop_width = 0, crop_height = 0\<rparr>\<rparr>"

text \<open>
  The page shows the upload area when \<^verbatim>\<open>!imageUrl\<close> and the editor otherwise: \<^verbatim>\<open>null\<close>
  and the empty string are falsy.
\<close>

fun editing :: "AppState \<Rightarrow> bool" where
  "editing s = (case imageUrl s of None \<Rightarrow> False | Some u \<Rightarrow> u \<noteq> [])"

section \<open>Loading an image\<close>

definition resetCrop :: "AppState \<Rightarrow> AppState" where
  "resetCrop s =
    s\<lparr>cropArea := \<lparr>crop_x = 100, crop_y = 75, crop_width = 300, crop_height = 225\<rparr>,
      zoom := 1,
      rotation := 0,
      selectedRatio := aspectRatios ! 0\<rparr>"

record File =
  file_type :: string
  file_name :: string

text \<open>
  \<^verbatim>\<open>handleFileUpload\<close> starts a \<^verbatim>\<open>FileReader\<close>, which later calls \<^verbatim>\<open>onload\<close> with the data
  URL or \<^verbatim>\<open>onerror\<close>. The outcome of the read is an argument of the model, and the
  callback runs right after the synchronous part.
\<close>

datatype ReadOutcome = ReadLoaded string | ReadFailed

definition reader_onload :: "AppState \<Rightarrow> File \<Rightarrow> string \<Rightarrow> AppState" where
  "reader_onload s file result =
    resetCrop (s\<lparr>imageUrl := Some result, imageName := file_name file\<rparr>)"

definition reader_onerror :: "AppState \<Rightarrow> AppState" where
  "reader_onerror s = s\<lparr>imageError := Some ''Failed to read file''\<rparr>"

definition handleFileUpload :: "AppState \<Rightarrow> File \<Rightarrow> ReadOutcome \<Rightarrow> AppState" where
  "handleFileUpload s file outcome =
    (if \<not> prefix ''image/'' (file_type file)
     then s\<lparr>imageError := Some ''Please upload an image file (JPG, PNG, GIF, WebP)''\<rparr>
     else
       (let s1 = s\<lparr>imageError := None\<rparr>
        in case outcome of
             ReadLoaded result \<Rightarrow> reader_onload s1 file result
           | ReadFailed \<Rightarrow> reader_onerror s1))"

text \<open>
  \<^verbatim>\<open>String.prototype.trim\<close>. A \<open>char\<close> of HOL has eight bits and stands for the code
  unit of the same number, so the strings of the model are those with code units below
  256. Of these, ECMAScript counts seven as white space or line terminators: space, tab,
  line feed, vertical tab, form feed, carriage return and the no-break space U+00A0.
\<close>

definition isWhiteSpace :: "char \<Rightarrow> bool" where
  "isWhiteSpace c =
    (c \<in> set [CHR 0x20, CHR 0x09, CHR 0x0A, CHR 0x0B, CHR 0x0C, CHR 0x0D, CHR 0xA0])"

definition trim :: "string \<Rightarrow> string" where
  "trim t = rev (dropWhile isWhiteSpace (rev (dropWhile isWhiteSpace t)))"

datatype ImgOutcome = ImgLoaded | ImgError

definition img_onload :: "AppState \<Rightarrow> string \<Rightarrow> AppState" where
  "img_onload s url =
    resetCrop (s\<lparr>imageUrl := Some url, imageName := ''Image from URL'',
                 showUrlInput := False, urlInput := []\<rparr>)"

definition img_onerror :: "AppState \<Rightarrow> AppState" where
  "img_onerror s =
    s\<lparr>imageError := Some (''Failed to load image from URL. Make sure the URL is correct '' @
                          ''and the image allows cross-origin access.'')\<rparr>"

definition handleUrlSubmit :: "AppState \<Rightarrow> ImgOutcome \<Rightarrow> AppState" where
  "handleUrlSubmit s outcome =
    (if trim (urlInput s) = [] then s
     else
       (let s1 = s\<lparr>imageError := None\<rparr>
        in case outcome of
             ImgLoaded \<Rightarrow> img_onload s1 (urlInput s)
           | ImgError \<Rightarrow> img_onerror s1))"

text \<open>
  \<^verbatim>\<open>generateGeometricImage\<close> draws on a canvas and returns its data URL; the URL is an
  argument of the model.
\<close>

definition loadSampleImage :: "AppState \<Rightarrow> string \<Rightarrow> AppState" where
  "loadSampleImage s sampleUrl =
    resetCrop (s\<lparr>imageUrl := Some sampleUrl, imageName := ''Sample Geometric Image'',
                 imageError := None\<rparr>)"

text \<open>The button \<^verbatim>\<open>Change Image\<close>.\<close>

definition changeImage :: "AppState \<Rightarrow> AppState" where
  "changeImage s = s\<lparr>imageUrl := None, imageName := []\<rparr>"

section \<open>The preview\<close>

record SourceRegion =
  sourceX :: real
  sourceY :: real
  sourceWidth :: real
  sourceHeight :: real

text \<open>
  \<^verbatim>\<open>updatePreview\<close> returns at once when the canvas or the decoded image is missing
  (\<open>None\<close>); otherwise it computes the region of the image handed to \<^verbatim>\<open>drawImage\<close>.
  The image is given by its pixel width and height. The size of the preview canvas and
  the drawing itself are not modelled.
\<close>

definition updatePreview :: "AppState \<Rightarrow> bool \<Rightarrow> (real \<times> real) option \<Rightarrow> SourceRegion option" where
  "updatePreview s canvas img =
    (case img of
       None \<Rightarrow> None
     | Some (img_width, img_height) \<Rightarrow>
         if \<not> canvas then None
         else
           (let scaleX = img_width / (containerWidth * zoom s);
                scaleY = img_height / (containerHeight * zoom s)
            in Some \<lparr>sourceX = crop_x (cropArea s) * scaleX,
                     sourceY = crop_y (cropArea s) * scaleY,
                     sourceWidth = crop_width (cropArea s) * scaleX,
                     sourceHeight = crop_height (cropArea s) * scaleY\<rparr>))"

section \<open>Dragging the crop rectangle\<close>

definition handleMouseDown :: "AppState \<Rightarrow> real \<times> real \<Rightarrow> DragType \<Rightarrow> AppState" where
  "handleMouseDown s e type =
    s\<lparr>isDragging := True, dragType := Some type, dragStart := e, initialCrop := cropArea s\<rparr>"

record Dims =
  dim_width :: real
  dim_height :: real

text \<open>
  \<^verbatim>\<open>constrainToRatio\<close> reads \<^verbatim>\<open>selectedRatio\<close> and \<^verbatim>\<open>initialCrop\<close> from the component; they
  are its first two arguments here.
\<close>

definition constrainToRatio :: "AspectRatio \<Rightarrow> CropArea \<Rightarrow> real \<Rightarrow> real \<Rightarrow> HandlePosition \<Rightarrow> Dims" where
  "constrainToRatio sel init w h handle =
    (case ratio_value sel of
       None \<Rightarrow> \<lparr>dim_width = w, dim_height = h\<rparr>
     | Some ratio \<Rightarrow>
         if ratio = 0 then \<lparr>dim_width = w, dim_height = h\<rparr>
         else
           (let isHorizontalHandle = (handle = E \<or> handle = W);
                isVerticalHandle = (handle = N \<or> handle = S)
            in if isHorizontalHandle then \<lparr>dim_width = w, dim_height = w / ratio\<rparr>
               else if isVerticalHandle then \<lparr>dim_width = h * ratio, dim_height = h\<rparr>
               else
                 (let newHeightFromWidth = w / ratio;
                      newWidthFromHeight = h * ratio
                  in if \<bar>w - crop_width init\<bar> > \<bar>h - crop_height init\<bar>
                     then \<lparr>dim_width = w, dim_height = newHeightFromWidth\<rparr>
                     else \<lparr>dim_width = newWidthFromHeight, dim_height = h\<rparr>)))"

text \<open>
  The \<^verbatim>\<open>switch (dragType)\<close> of \<^verbatim>\<open>handleMouseMove\<close>: the rectangle before it is constrained
  to the container. \<^verbatim>\<open>newCrop\<close> starts as a copy of \<^verbatim>\<open>initialCrop\<close> and is assigned field
  by field, in the order of the source.
\<close>

fun resizeCrop :: "AspectRatio \<Rightarrow> CropArea \<Rightarrow> real \<Rightarrow> real \<Rightarrow> HandlePosition \<Rightarrow> CropArea" where
  "resizeCrop sel init deltaX deltaY NW =
    (let newCrop = init;
         newCrop = newCrop\<lparr>crop_width := max minSize (crop_width init - deltaX)\<rparr>;
         newCrop = newCrop\<lparr>crop_height := max minSize (crop_height init - deltaY)\<rparr>;
         newCrop =
           (if truthy (ratio_value sel)
            then (let constrained = constrainToRatio sel init (crop_width newCrop) (crop_height newCrop) NW
                  in newCrop\<lparr>crop_width := dim_width constrained, crop_height := dim_height constrained\<rparr>)
            else newCrop);
         newCrop = newCrop\<lparr>crop_x := crop_x init + crop_width init - crop_width newCrop\<rparr>
     in newCrop\<lparr>crop_y := crop_y init + crop_height init - crop_height newCrop\<rparr>)"
| "resizeCrop sel init deltaX deltaY N =
    (let newCrop = init;
         newCrop = newCrop\<lparr>crop_height := max minSize (crop_height init - deltaY)\<rparr>;
         newCrop =
           (if truthy (ratio_value sel)
            then (let constrained = constrainToRatio sel init (crop_width newCrop) (crop_height newCrop) N
                  in newCrop\<lparr>crop_width := dim_width constrained,
                             crop_x := crop_x init + (crop_width init - dim_width constrained) / 2\<rparr>)
            else newCrop)
     in newCrop\<lparr>crop_y := crop_y init + crop_height init - crop_height newCrop\<rparr>)"
| "resizeCrop sel init deltaX deltaY NE =
    (let newCrop = init;
         newCrop = newCrop\<lparr>crop_width := max minSize (crop_width init + deltaX)\<rparr>;
         newCrop = newCrop\<lparr>crop_height := max minSize (crop_height init - deltaY)\<rparr>;
         newCrop =
           (if truthy (ratio_value sel)
            then (let constrained = constrainToRatio sel init (crop_width newCrop) (crop_height newCrop) NE
                  in newCrop\<lparr>crop_width := dim_width constrained, crop_height := dim_height constrained\<rparr>)
            else newCrop)
     in newCrop\<lparr>crop_y := crop_y init + crop_height init - crop_height newCrop\<rparr>)"
| "resizeCrop sel init deltaX deltaY E =
    (let newCrop = init;
         newCrop = newCrop\<lparr>crop_width := max minSize (crop_width init + deltaX)\<rparr>
     in if truthy (ratio_value sel)
        then (let constrained = constrainToRatio sel init (crop_width newCrop) (crop_height newCrop) E
              in newCrop\<lparr>crop_height := dim_height constrained,
                         crop_y := crop_y init + (crop_height init - dim_height constrained) / 2\<rparr>)
        else newCrop)"
| "resizeCrop sel init deltaX deltaY SE =
    (let newCrop = init;
         newCrop = newCrop\<lparr>crop_width := max minSize (crop_width init + deltaX)\<rparr>;
         newCrop = newCrop\<lparr>crop_height := max minSize (crop_height init + deltaY)\<rparr>
     in if truthy (ratio_value sel)
        then (let constrained = constrainToRatio sel init (crop_width newCrop) (crop_height newCrop) SE
              in newCrop\<lparr>crop_width := dim_width constrained, crop_height := dim_height constrained\<rparr>)
        else newCrop)"
| "resizeCrop sel init deltaX deltaY S =
    (let newCrop = init;
         newCrop = newCrop\<lparr>crop_height := max minSize (crop_height init + deltaY)\<rparr>
     in if truthy (ratio_value sel)
        then (let constrained = constrainToRatio sel init (crop_width newCrop) (crop_height newCrop) S
              in newCrop\<lparr>crop_width := dim_width constrained,
                         crop_x := crop_x init + (crop_width init - dim_width constrained) / 2\<rparr>)
        else newCrop)"
| "resizeCrop sel init deltaX deltaY SW =
    (let newCrop = init;
         newCrop = newCrop\<lparr>crop_width := max minSize (crop_width init - deltaX)\<rparr>;
         newCrop = newCrop\<lparr>crop_height := max minSize (crop_height init + deltaY)\<rparr>;
         newCrop =
           (if truthy (ratio_value sel)
            then (let constrained = constrainToRatio sel init (crop_width newCrop) (crop_height newCrop) SW
                  in newCrop\<lparr>crop_width := dim_width constrained, crop_height := dim_height constrained\<rparr>)
            else newCrop)
     in newCrop\<lparr>crop_x := crop_x init + crop_width init - crop_width newCrop\<rparr>)"
| "resizeCrop sel init deltaX deltaY W =
    (let newCrop = init;
         newCrop = newCrop\<lparr>crop_width := max minSize (crop_width init - deltaX)\<rparr>;
         newCrop =
           (if truthy (ratio_value sel)
            then (let constrained = constrainToRatio sel init (crop_width newCrop) (crop_height newCrop) W
                  in newCrop\<lparr>crop_height := dim_height constrained,
                             crop_y := crop_y init + (crop_height init - dim_height constrained) / 2\<rparr>)
            else newCrop)
     in newCrop\<lparr>crop_x := crop_x init + crop_width init - crop_width newCrop\<rparr>)"

text \<open>The four assignments under \<^verbatim>\<open>// Constrain to container bounds\<close>.\<close>

definition constrainToBounds :: "CropArea \<Rightarrow> CropArea" where
  "constrainToBounds c =
    (let newCrop = c;
         newCrop = newCrop\<lparr>crop_x := max 0 (min (containerWidth - minSize) (crop_x newCrop))\<rparr>;
         newCrop = newCrop\<lparr>crop_y := max 0 (min (containerHeight - minSize) (crop_y newCrop))\<rparr>;
         newCrop = newCrop\<lparr>crop_width := min (crop_width newCrop) (containerWidth - crop_x newCrop)\<rparr>
     in newCrop\<lparr>crop_height := min (crop_height newCrop) (containerHeight - crop_y newCrop)\<rparr>)"

text \<open>The mouse event is the pair \<^verbatim>\<open>(clientX, clientY)\<close>.\<close>

definition handleMouseMove :: "AppState \<Rightarrow> real \<times> real \<Rightarrow> AppState" where
  "handleMouseMove s e =
    (if \<not> isDragging s then s
     else case dragType s of
       None \<Rightarrow> s
     | Some type \<Rightarrow>
         (let deltaX = fst e - fst (dragStart s);
              deltaY = snd e - snd (dragStart s)
          in case type of
               Move \<Rightarrow>
                 (let newX = max 0 (min (containerWidth - crop_width (cropArea s))
                                        (crop_x (initialCrop s) + deltaX));
                      newY = max 0 (min (containerHeight - crop_height (cropArea s))
                                        (crop_y (initialCrop s) + deltaY))
                  in s\<lparr>cropArea := (cropArea s)\<lparr>crop_x := newX, crop_y := newY\<rparr>\<rparr>)
             | Handle h \<Rightarrow>
                 s\<lparr>cropArea :=
                     constrainToBounds (resizeCrop (selectedRatio s) (initialCrop s) deltaX deltaY h)\<rparr>))"

definition handleMouseUp :: "AppState \<Rightarrow> AppState" where
  "handleMouseUp s = s\<lparr>isDragging := False, dragType := None\<rparr>"

section \<open>Choosing an aspect ratio\<close>

definition applyAspectRatio :: "AppState \<Rightarrow> AspectRatio \<Rightarrow> AppState" where
  "applyAspectRatio s ratio =
    (let s1 = s\<lparr>selectedRatio := ratio\<rparr>
     in case ratio_value ratio of
          None \<Rightarrow> s1
        | Some v \<Rightarrow>
            if v = 0 then s1
            else
              (let currentCenterX = crop_x (cropArea s) + crop_width (cropArea s) / 2;
                   currentCenterY = crop_y (cropArea s) + crop_height (cropArea s) / 2;
                   newWidth = crop_width (cropArea s);
                   newHeight = newWidth / v;
                   (newWidth, newHeight) =
                     (if newHeight > containerHeight
                      then (let newHeight = containerHeight * 0.8;
                                newWidth = newHeight * v
                            in (newWidth, newHeight))
                      else (newWidth, newHeight));
                   (newWidth, newHeight) =
                     (if newWidth > containerWidth
                      then (let newWidth = containerWidth * 0.8;
                                newHeight = newWidth / v
                            in (newWidth, newHeight))
                      else (newWidth, newHeight));
                   newX = currentCenterX - newWidth / 2;
                   newY = currentCenterY - newHeight / 2;
                   newX = max 0 (min (containerWidth - newWidth) newX);
                   newY = max 0 (min (containerHeight - newHeight) newY)
               in s1\<lparr>cropArea := \<lparr>crop_x = newX, crop_y = newY,
                                   crop_width = newWidth, crop_height = newHeight\<rparr>\<rparr>))"

section \<open>Choosing an aspect ratio in double precision\<close>

text \<open>
  The numbers of the source are IEEE 754 doubles: the result of \<^verbatim>\<open>+\<close>, \<^verbatim>\<open>-\<close>, \<^verbatim>\<open>*\<close> and
  \<^verbatim>\<open>/\<close> is the exact result rounded to the nearest double, ties to the double with an even
  significand. \<open>fl\<close> is this rounding on the reals. The doubles near \<open>x\<close> are the multiples
  of \<open>p = spacing \<bar>x\<bar>\<close>, the power of two for which \<open>\<bar>x\<bar> / p\<close> lies between \<open>2^52\<close> and
  \<open>2^53\<close>; starting from 1 it is halved at most 1074 times, down to the spacing of the
  subnormal numbers, or doubled at most 971 times, up to that of the largest doubles. Overflow to
  \<^verbatim>\<open>Infinity\<close>, \<^verbatim>\<open>NaN\<close> and the sign of zero are not modelled.
\<close>

definition roundTiesToEven :: "real \<Rightarrow> int" where
  "roundTiesToEven q =
    (let m = \<lfloor>q\<rfloor>; d = q - of_int m
     in if d < 1 / 2 then m else if 1 / 2 < d then m + 1 else if even m then m else m + 1)"

fun finer :: "nat \<Rightarrow> real \<Rightarrow> real \<Rightarrow> real" where
  "finer 0 a p = p"
| "finer (Suc n) a p = (if a < 2 ^ 52 then finer n (a * 2) (p / 2) else p)"

fun coarser :: "nat \<Rightarrow> real \<Rightarrow> real \<Rightarrow> real" where
  "coarser 0 a p = p"
| "coarser (Suc n) a p = (if 2 ^ 53 \<le> a then coarser n (a / 2) (p * 2) else p)"

definition spacing :: "real \<Rightarrow> real" where
  "spacing a = (if 2 ^ 53 \<le> a then coarser 971 a 1 else finer 1074 a 1)"

definition fl :: "real \<Rightarrow> real" where
  "fl x =
    (let p = spacing \<bar>x\<bar>; m = roundTiesToEven (\<bar>x\<bar> / p)
     in sgn x * of_int m * p)"

text \<open>
  \<^verbatim>\<open>applyAspectRatio\<close> with \<open>rnd\<close> applied to the result of every arithmetic operation and
  to the literal \<^verbatim>\<open>0.8\<close>. With \<open>rnd = fl\<close> it is the arithmetic of the source, with the
  identity it is \<open>applyAspectRatio\<close> above.
\<close>

definition applyAspectRatio_rounded :: "(real \<Rightarrow> real) \<Rightarrow> AppState \<Rightarrow> AspectRatio \<Rightarrow> AppState" where
  "applyAspectRatio_rounded rnd s ratio =
    (let s1 = s\<lparr>selectedRatio := ratio\<rparr>
     in case ratio_value ratio of
          None \<Rightarrow> s1
        | Some v \<Rightarrow>
            if v = 0 then s1
            else
              (let currentCenterX = rnd (crop_x (cropArea s) + rnd (crop_width (cropArea s) / 2));
                   currentCenterY = rnd (crop_y (cropArea s) + rnd (crop_height (cropArea s) / 2));
                   newWidth = crop_width (cropArea s);
                   newHeight = rnd (newWidth / v);
                   (newWidth, newHeight) =
                     (if newHeight > containerHeight
                      then (let newHeight = rnd (containerHeight * rnd 0.8);
                                newWidth = rnd (newHeight * v)
                            in (newWidth, newHeight))
                      else (newWidth, newHeight));
                   (newWidth, newHeight) =
                     (if newWidth > containerWidth
                      then (let newWidth = rnd (containerWidth * rnd 0.8);
                                newHeight = rnd (newWidth / v)
                            in (newWidth, newHeight))
                      else (newWidth, newHeight));
                   newX = rnd (currentCenterX - rnd (newWidth / 2));
                   newY = rnd (currentCenterY - rnd (newHeight / 2));
                   newX = max 0 (min (rnd (containerWidth - newWidth)) newX);
                   newY = max 0 (min (rnd (containerHeight - newHeight)) newY)
               in s1\<lparr>cropArea := \<lparr>crop_x = newX, crop_y = newY,
                                   crop_width = newWidth, crop_height = newHeight\<rparr>\<rparr>))"

section \<open>Zoom and rotation controls\<close>

text \<open>
  The handlers written inline in the JSX. The two sliders are \<^verbatim>\<open>input type="range"\<close>
  elements with \<^verbatim>\<open>min\<close>, \<^verbatim>\<open>max\<close> and \<^verbatim>\<open>step\<close>; the value they report is the argument.
\<close>

definition zoomOutClick :: "AppState \<Rightarrow> AppState" where
  "zoomOutClick s = s\<lparr>zoom := max 0.5 (zoom s - 0.1)\<rparr>"

definition zoomInClick :: "AppState \<Rightarrow> AppState" where
  "zoomInClick s = s\<lparr>zoom := min 3 (zoom s + 0.1)\<rparr>"

definition zoomSliderChange :: "AppState \<Rightarrow> real \<Rightarrow> AppState" where
  "zoomSliderChange s v = s\<lparr>zoom := v\<rparr>"

definition rotateLeftClick :: "AppState \<Rightarrow> AppState" where
  "rotateLeftClick s = s\<lparr>rotation := rotation s - 90\<rparr>"

definition rotateRightClick :: "AppState \<Rightarrow> AppState" where
  "rotateRightClick s = s\<lparr>rotation := rotation s + 90\<rparr>"

definition rotationSliderChange :: "AppState \<Rightarrow> int \<Rightarrow> AppState" where
  "rotationSliderChange s v = s\<lparr>rotation := v\<rparr>"

definition presetAngles :: "int list" where
  "presetAngles = [-45, 0, 45, 90, 180]"

definition presetAngleClick :: "AppState \<Rightarrow> int \<Rightarrow> AppState" where
  "presetAngleClick s deg = s\<lparr>rotation := deg\<rparr>"

text \<open>The button \<^verbatim>\<open>Use URL\<close> and the text field of the URL.\<close>

definition useUrlClick :: "AppState \<Rightarrow> AppState" where
  "useUrlClick s = s\<lparr>showUrlInput := \<not> showUrlInput s\<rparr>"

definition urlInputChange :: "AppState \<Rightarrow> string \<Rightarrow> AppState" where
  "urlInputChange s v = s\<lparr>urlInput := v\<rparr>"

section \<open>Predicates of the specification and example sessions\<close>

text \<open>
  The invariants the specification gives for a rectangle in the container, with the
  minimum size of \<^verbatim>\<open>handleMouseMove\<close>.
\<close>

definition Rectangle_invariants :: "CropArea \<Rightarrow> bool" where
  "Rectangle_invariants c =
    (0 < crop_width c \<and> 0 < crop_height c \<and> 0 \<le> crop_x c \<and> 0 \<le> crop_y c \<and>
     crop_x c + crop_width c \<le> containerWidth \<and> crop_y c + crop_height c \<le> containerHeight \<and>
     minSize \<le> crop_width c \<and> minSize \<le> crop_height c)"

definition within_container :: "CropArea \<Rightarrow> bool" where
  "within_container c =
    (0 \<le> crop_x c \<and> 0 \<le> crop_y c \<and>
     crop_x c + crop_width c \<le> containerWidth \<and> crop_y c + crop_height c \<le> containerHeight)"

text \<open>
  Sessions used as concrete inputs: the sample image is loaded in a freshly mounted
  component; then a handle is pressed at the pointer position \<open>(0, 0)\<close>, at once or after
  the ratio button number \<open>k\<close> was clicked.
\<close>

definition example_loaded :: AppState where
  "example_loaded = loadSampleImage initialState ''data:image/png;base64,AAAA''"

definition example_free_drag :: "HandlePosition \<Rightarrow> AppState" where
  "example_free_drag h = handleMouseDown example_loaded (0, 0) (Handle h)"

definition example_locked_drag :: "nat \<Rightarrow> HandlePosition \<Rightarrow> AppState" where
  "example_locked_drag k h =
     handleMouseDown (applyAspectRatio example_loaded (aspectRatios ! k)) (0, 0) (Handle h)"

text \<open>
  The east handle dragged 60 to the left with the Free ratio and released: the rectangle
  is 240 by 225 at (100, 75).
\<close>

definition example_narrow :: AppState where
  "example_narrow = handleMouseUp (handleMouseMove (example_free_drag E) (-60, 0))"

text \<open>A state whose rectangle is wider than the container, which no handler produces.\<close>

definition example_wide :: AppState where
  "example_wide =
     example_loaded\<lparr>cropArea := \<lparr>crop_x = 0, crop_y = 0, crop_width = 600, crop_height = 300\<rparr>\<rparr>"

text \<open>
  The south-east handle dragged by (-250, -175) with the Free ratio and released: the
  rectangle is 50 by 50 at (100, 75).
\<close>

definition example_small :: AppState where
  "example_small = handleMouseUp (handleMouseMove (example_free_drag SE) (-250, -175))"

text \<open>
  Under 16:9 the east handle is dragged 250 to the left and released, which leaves the
  rectangle 50 by 28.125; then Free is clicked and the east handle pressed.
\<close>

definition example_free_flat :: AppState where
  "example_free_flat =
     handleMouseDown
       (applyAspectRatio (handleMouseUp (handleMouseMove (example_locked_drag 3 E) (-250, 0)))
          (aspectRatios ! 0))
       (0, 0) (Handle E)"

text \<open>
  The north-east handle dragged by (83, 120) with the Free ratio and released: the
  rectangle is 383 by 105 at (100, 195). All numbers of this drag are integers, which
  doubles represent and compute exactly.
\<close>

definition example_tall :: AppState where
  "example_tall = handleMouseUp (handleMouseMove (example_free_drag NE) (83, 120))"

text \<open>What a load resets, and what a failed load must leave alone.\<close>

definition session_reset :: "AppState \<Rightarrow> bool" where
  "session_reset s =
    (cropArea s = \<lparr>crop_x = 100, crop_y = 75, crop_width = 300, crop_height = 225\<rparr> \<and>
     zoom s = 1 \<and> rotation s = 0 \<and> selectedRatio s = aspectRatios ! 0)"

definition editor_unchanged :: "AppState \<Rightarrow> AppState \<Rightarrow> bool" where
  "editor_unchanged s s' =
    (cropArea s' = cropArea s \<and> zoom s' = zoom s \<and> rotation s' = rotation s \<and>
     selectedRatio s' = selectedRatio s \<and> imageUrl s' = imageUrl s \<and> editing s' = editing s)"

definition example_png :: File where
  "example_png = \<lparr>file_type = ''image/png'', file_name = ''photo.png''\<rparr>"

definition example_pdf :: File where
  "example_pdf = \<lparr>file_type = ''application/pdf'', file_name = ''notes.pdf''\<rparr>"

text \<open>
  After the sample image was rotated and zoomed, \<^verbatim>\<open>Change Image\<close> brings the upload area
  back, where a URL is typed.
\<close>

definition example_url_typed :: AppState where
  "example_url_typed =
     urlInputChange (useUrlClick (changeImage (zoomInClick (rotateRightClick example_loaded))))
       ''https://example.com/image.jpg''"

text \<open>The ranges the specification gives for the zoom factor and the rotation angle.\<close>

definition zoom_in_range :: "real \<Rightarrow> bool" where
  "zoom_in_range z = (0.5 \<le> z \<and> z \<le> 3)"

definition rotation_in_range :: "int \<Rightarrow> bool" where
  "rotation_in_range d = (-180 \<le> d \<and> d \<le> 180)"

section \<open>Facts about the bounds clamp and the handle arithmetic\<close>

lemmas consts_defs = containerWidth_def containerHeight_def minSize_def

lemmas example_loaded_defs = example_loaded_def loadSampleImage_def resetCrop_def initialState_def

lemmas example_defs = example_free_drag_def example_locked_drag_def example_loaded_defs
  handleMouseDown_def applyAspectRatio_def aspectRatios_def Let_def consts_defs

lemmas drag_defs = handleMouseMove_def constrainToBounds_def constrainToRatio_def

lemma constrainToBounds_within: "within_container (constrainToBounds c)"
  unfolding within_container_def constrainToBounds_def Let_def consts_defs
  by (simp add: min_def max_def)

lemma constrainToBounds_width:
  "crop_width (constrainToBounds c) =
     min (crop_width c) (containerWidth - max 0 (min (containerWidth - minSize) (crop_x c)))"
  by (simp add: constrainToBounds_def Let_def)

lemma constrainToBounds_height:
  "crop_height (constrainToBounds c) =
     min (crop_height c) (containerHeight - max 0 (min (containerHeight - minSize) (crop_y c)))"
  by (simp add: constrainToBounds_def Let_def)

lemma constrainToBounds_x:
  "crop_x (constrainToBounds c) = max 0 (min (containerWidth - minSize) (crop_x c))"
  by (simp add: constrainToBounds_def Let_def)

lemma constrainToBounds_y:
  "crop_y (constrainToBounds c) = max 0 (min (containerHeight - minSize) (crop_y c))"
  by (simp add: constrainToBounds_def Let_def)

lemma constrainToBounds_lower:
  assumes "m \<le> minSize" "m \<le> crop_width c" "m \<le> crop_height c"
  shows "m \<le> crop_width (constrainToBounds c) \<and> m \<le> crop_height (constrainToBounds c)"
  using assms unfolding constrainToBounds_width constrainToBounds_height consts_defs
  by (simp add: min_def max_def)

lemma constrainToBounds_pos:
  assumes "0 < crop_width c" "0 < crop_height c"
  shows "0 < crop_width (constrainToBounds c) \<and> 0 < crop_height (constrainToBounds c)"
  using assms unfolding constrainToBounds_width constrainToBounds_height consts_defs
  by (simp add: min_def max_def)

lemma constrainToBounds_fits:
  assumes "within_container c"
  shows "crop_width (constrainToBounds c) = crop_width c \<and>
         crop_height (constrainToBounds c) = crop_height c"
  using assms unfolding within_container_def constrainToBounds_width constrainToBounds_height consts_defs
  by (simp add: min_def max_def)

lemma resizeCrop_free:
  assumes "\<not> truthy (ratio_value sel)" "minSize \<le> crop_width init" "minSize \<le> crop_height init"
  shows "minSize \<le> crop_width (resizeCrop sel init dx dy h) \<and>
         minSize \<le> crop_height (resizeCrop sel init dx dy h)"
  using assms by (cases h) (simp_all add: Let_def)

lemma max_minSize_pos: "0 < max minSize a"
  by (simp add: minSize_def max_def)

lemma max_minSize_neq0: "max minSize a \<noteq> 0"
  using max_minSize_pos [of a] by simp

lemma resizeCrop_locked_ratio:
  assumes "ratio_value sel = Some r" "r \<noteq> 0"
  shows "crop_width (resizeCrop sel init dx dy hp) = crop_height (resizeCrop sel init dx dy hp) * r"
  using assms by (cases hp) (simp_all add: Let_def constrainToRatio_def)

lemma resizeCrop_locked_pos:
  assumes "ratio_value sel = Some r" "0 < r"
  shows "0 < crop_width (resizeCrop sel init dx dy hp) \<and> 0 < crop_height (resizeCrop sel init dx dy hp)"
  using assms by (cases hp) (simp_all add: Let_def constrainToRatio_def max_minSize_pos)

lemma applyAspectRatio_free:
  assumes "\<not> truthy (ratio_value ratio)"
  shows "applyAspectRatio s ratio = s\<lparr>selectedRatio := ratio\<rparr>"
  using assms by (cases "ratio_value ratio") (simp_all add: applyAspectRatio_def Let_def)

lemma applyAspectRatio_keep:
  assumes "ratio_value ratio = Some r" "0 < r" "crop_width (cropArea s) \<le> containerWidth"
    and "crop_width (cropArea s) / r \<le> containerHeight"
  shows "cropArea (applyAspectRatio s ratio) =
      \<lparr>crop_x = max 0 (min (containerWidth - crop_width (cropArea s)) (crop_x (cropArea s))),
       crop_y = max 0 (min (containerHeight - crop_width (cropArea s) / r)
                  (crop_y (cropArea s) + crop_height (cropArea s) / 2 - crop_width (cropArea s) / r / 2)),
       crop_width = crop_width (cropArea s),
       crop_height = crop_width (cropArea s) / r\<rparr>"
proof -
  have "\<not> crop_width (cropArea s) > containerWidth"
    using assms(3) by simp
  then show ?thesis
    using assms(1,2,4) by (simp add: applyAspectRatio_def Let_def)
qed

lemma applyAspectRatio_shrink:
  assumes "ratio_value ratio = Some r" "0 < r" "crop_width (cropArea s) \<le> containerWidth"
    and "crop_width (cropArea s) / r > containerHeight"
  shows "cropArea (applyAspectRatio s ratio) =
      \<lparr>crop_x = max 0 (min (containerWidth - containerHeight * 0.8 * r)
                  (crop_x (cropArea s) + crop_width (cropArea s) / 2 - containerHeight * 0.8 * r / 2)),
       crop_y = max 0 (min (containerHeight - containerHeight * 0.8)
                  (crop_y (cropArea s) + crop_height (cropArea s) / 2 - containerHeight * 0.8 / 2)),
       crop_width = containerHeight * 0.8 * r,
       crop_height = containerHeight * 0.8\<rparr>"
    and "containerHeight * 0.8 * r \<le> containerWidth"
proof -
  have w: "crop_width (cropArea s) \<le> containerWidth"
    using assms(3) .
  have "containerHeight * r < crop_width (cropArea s)"
    using assms(2,4) by (simp add: pos_less_divide_eq)
  with w have r: "375 * r < 500"
    by (simp add: consts_defs)
  then show le: "containerHeight * 0.8 * r \<le> containerWidth"
    by (simp add: consts_defs)
  then have "\<not> containerHeight * 0.8 * r > containerWidth" by simp
  then show "cropArea (applyAspectRatio s ratio) =
      \<lparr>crop_x = max 0 (min (containerWidth - containerHeight * 0.8 * r)
                  (crop_x (cropArea s) + crop_width (cropArea s) / 2 - containerHeight * 0.8 * r / 2)),
       crop_y = max 0 (min (containerHeight - containerHeight * 0.8)
                  (crop_y (cropArea s) + crop_height (cropArea s) / 2 - containerHeight * 0.8 / 2)),
       crop_width = containerHeight * 0.8 * r,
       crop_height = containerHeight * 0.8\<rparr>"
    using assms(1,2,4) by (simp add: applyAspectRatio_def Let_def)
qed

lemma Rectangle_invariants_width:
  "Rectangle_invariants c \<Longrightarrow> crop_width c \<le> containerWidth \<and> 0 < crop_width c"
  by (simp add: Rectangle_invariants_def)

lemma applyAspectRatio_locked_within:
  assumes "ratio_value ratio = Some r" "0 < r" "0 < crop_width (cropArea s)"
    "crop_width (cropArea s) \<le> containerWidth"
  shows "within_container (cropArea (applyAspectRatio s ratio)) \<and>
         0 < crop_width (cropArea (applyAspectRatio s ratio)) \<and>
         0 < crop_height (cropArea (applyAspectRatio s ratio)) \<and>
         crop_width (cropArea (applyAspectRatio s ratio)) / crop_height (cropArea (applyAspectRatio s ratio)) = r"
proof (cases "crop_width (cropArea s) / r > containerHeight")
  case True
  note sh = applyAspectRatio_shrink [OF assms(1,2,4) True]
  have "0 < containerHeight * 0.8 * r"
    using assms(2) by (simp add: consts_defs)
  then show ?thesis
    using sh(2) assms(2) unfolding sh(1) within_container_def
    by (simp add: consts_defs min_def max_def)
next
  case False
  then have le: "crop_width (cropArea s) / r \<le> containerHeight" by simp
  have "0 < crop_width (cropArea s) / r"
    using assms(2,3) by simp
  then show ?thesis
    using le assms(2,3,4) unfolding applyAspectRatio_keep [OF assms(1,2,4) le] within_container_def
    by (simp add: min_def max_def)
qed

lemma handleMouseMove_resize:
  assumes "isDragging s" "dragType s = Some (Handle h)"
  shows "cropArea (handleMouseMove s e) =
     constrainToBounds (resizeCrop (selectedRatio s) (initialCrop s)
        (fst e - fst (dragStart s)) (snd e - snd (dragStart s)) h)"
  using assms by (simp add: handleMouseMove_def Let_def)

lemmas example_url_typed_defs = example_url_typed_def urlInputChange_def useUrlClick_def
  changeImage_def zoomInClick_def rotateRightClick_def example_loaded_defs

lemma resetCrop_session_reset: "session_reset (resetCrop s)"
  by (simp add: session_reset_def resetCrop_def)

lemma trim_Nil: "trim [] = []"
  by (simp add: trim_def)

lemma constrainToBounds_floor:
  "min minSize (crop_width c) \<le> crop_width (constrainToBounds c) \<and>
   min minSize (crop_height c) \<le> crop_height (constrainToBounds c)"
  unfolding constrainToBounds_width constrainToBounds_height consts_defs
  by (simp add: min_def max_def)

lemma resizeCrop_free_floor:
  assumes "\<not> truthy (ratio_value sel)"
  shows "min minSize (crop_width init) \<le> crop_width (resizeCrop sel init dx dy hp) \<and>
         min minSize (crop_height init) \<le> crop_height (resizeCrop sel init dx dy hp)"
  using assms by (cases hp) (simp_all add: Let_def min_def max_def)

lemma resizeCrop_locked_floor:
  assumes "ratio_value sel = Some r" "0 < r"
  shows "(minSize \<le> crop_width (resizeCrop sel init dx dy hp) \<and>
          minSize / r \<le> crop_height (resizeCrop sel init dx dy hp)) \<or>
         (minSize \<le> crop_height (resizeCrop sel init dx dy hp) \<and>
          minSize * r \<le> crop_width (resizeCrop sel init dx dy hp))"
  using assms
  by (cases hp) (simp_all add: Let_def constrainToRatio_def divide_right_mono)

lemma locked_floor_after_clamp:
  assumes "0 < r"
    and "(minSize \<le> crop_width c \<and> minSize / r \<le> crop_height c) \<or>
         (minSize \<le> crop_height c \<and> minSize * r \<le> crop_width c)"
  shows "(minSize \<le> crop_width (constrainToBounds c) \<or> minSize \<le> crop_height (constrainToBounds c)) \<and>
         min minSize (minSize * r) \<le> crop_width (constrainToBounds c) \<and>
         min minSize (minSize / r) \<le> crop_height (constrainToBounds c)"
proof -
  note f = constrainToBounds_floor [of c]
  from assms(2) show ?thesis
  proof
    assume a: "minSize \<le> crop_width c \<and> minSize / r \<le> crop_height c"
    then have "minSize \<le> crop_width (constrainToBounds c)"
      using f by (simp add: min_def split: if_splits)
    moreover have "min minSize (minSize / r) \<le> crop_height (constrainToBounds c)"
      using a f by (simp add: min_def split: if_splits)
    ultimately show ?thesis by (simp add: min_def)
  next
    assume a: "minSize \<le> crop_height c \<and> minSize * r \<le> crop_width c"
    then have "minSize \<le> crop_height (constrainToBounds c)"
      using f by (simp add: min_def split: if_splits)
    moreover have "min minSize (minSize * r) \<le> crop_width (constrainToBounds c)"
      using a f by (simp add: min_def split: if_splits)
    ultimately show ?thesis by (simp add: min_def)
  qed
qed

lemma catalogue_ratio:
  assumes "ratio \<in> set aspectRatios" "ratio_value ratio = Some r"
  shows "9 / 16 \<le> r"
  using assms by (auto simp: aspectRatios_def)

lemma applyAspectRatio_locked_floor:
  assumes "ratio_value ratio = Some r" "0 < r" "Rectangle_invariants (cropArea s)"
  shows "min minSize (containerHeight * 0.8 * r) \<le> crop_width (cropArea (applyAspectRatio s ratio)) \<and>
         min minSize (minSize / r) \<le> crop_height (cropArea (applyAspectRatio s ratio))"
proof (cases "crop_width (cropArea s) / r > containerHeight")
  case True
  have w: "crop_width (cropArea s) \<le> containerWidth"
    using assms(3) by (simp add: Rectangle_invariants_def)
  show ?thesis
    unfolding applyAspectRatio_shrink(1) [OF assms(1,2) w True]
    by (simp add: consts_defs min_def)
next
  case False
  then have le: "crop_width (cropArea s) / r \<le> containerHeight" by simp
  have w: "crop_width (cropArea s) \<le> containerWidth" "minSize \<le> crop_width (cropArea s)"
    using assms(3) by (simp_all add: Rectangle_invariants_def)
  have "minSize / r \<le> crop_width (cropArea s) / r"
    using w(2) assms(2) by (simp add: divide_right_mono)
  then show ?thesis
    unfolding applyAspectRatio_keep [OF assms(1,2) w(1) le]
    using w(2) by (simp add: min_def)
qed

section \<open>C1: the rectangles produced stay in the container\<close>

text \<open>
  Claim C1, as the code has it. Every rectangle produced by \<^verbatim>\<open>handleMouseMove\<close> with a
  resize handle, from any pointer position and any start rectangle, has \<open>x \<ge> 0\<close>,
  \<open>y \<ge> 0\<close>, \<open>x + width \<le> containerWidth\<close> and \<open>y + height \<le> containerHeight\<close>. With the Free
  ratio its width and height are at least \<open>minSize\<close> or the width and height at the start
  of the drag, whichever is smaller, so at least \<open>minSize\<close> when the start rectangle
  satisfies the invariants. With a ratio locked to a positive \<open>r\<close>, the width or the height
  is at least \<open>minSize\<close>, the width is at least the smaller of \<open>minSize\<close> and
  \<open>minSize * r\<close>, and the height at least the smaller of \<open>minSize\<close> and \<open>minSize / r\<close>.
  A rectangle produced by \<^verbatim>\<open>applyAspectRatio\<close> with a positive ratio \<open>r\<close> from a rectangle
  that satisfies the invariants has the four bounds, a width of at least the smaller of
  \<open>minSize\<close> and 80 percent of the container height times \<open>r\<close>, which is at least
  \<open>minSize\<close> for every ratio of the catalogue, and a height of at least the smaller of
  \<open>minSize\<close> and \<open>minSize / r\<close>. With an unconstrained ratio the rectangle is unchanged
  and satisfies the invariants as before.
\<close>

theorem crop_rectangle_bounds:
  assumes any: "isDragging s0" "dragType s0 = Some (Handle h0)"
    and free: "isDragging s1" "dragType s1 = Some (Handle h1)"
      "\<not> truthy (ratio_value (selectedRatio s1))"
    and free_inv: "isDragging s2" "dragType s2 = Some (Handle h2)"
      "\<not> truthy (ratio_value (selectedRatio s2))" "Rectangle_invariants (initialCrop s2)"
    and locked: "isDragging s3" "dragType s3 = Some (Handle h3)"
      "ratio_value (selectedRatio s3) = Some r3" "0 < r3"
    and retarget: "Rectangle_invariants (cropArea t)" "ratio_value ratio = Some r" "0 < r"
    and catalogue: "Rectangle_invariants (cropArea u)" "entry \<in> set aspectRatios"
      "ratio_value entry = Some q"
    and unconstrained: "Rectangle_invariants (cropArea v)" "ratio_value none = None"
  shows "within_container (cropArea (handleMouseMove s0 e0)) \<and>
         min minSize (crop_width (initialCrop s1)) \<le> crop_width (cropArea (handleMouseMove s1 e1)) \<and>
         min minSize (crop_height (initialCrop s1)) \<le> crop_height (cropArea (handleMouseMove s1 e1)) \<and>
         minSize \<le> crop_width (cropArea (handleMouseMove s2 e2)) \<and>
         minSize \<le> crop_height (cropArea (handleMouseMove s2 e2)) \<and>
         (minSize \<le> crop_width (cropArea (handleMouseMove s3 e3)) \<or>
          minSize \<le> crop_height (cropArea (handleMouseMove s3 e3))) \<and>
         min minSize (minSize * r3) \<le> crop_width (cropArea (handleMouseMove s3 e3)) \<and>
         min minSize (minSize / r3) \<le> crop_height (cropArea (handleMouseMove s3 e3)) \<and>
         within_container (cropArea (applyAspectRatio t ratio)) \<and>
         min minSize (containerHeight * 0.8 * r) \<le> crop_width (cropArea (applyAspectRatio t ratio)) \<and>
         min minSize (minSize / r) \<le> crop_height (cropArea (applyAspectRatio t ratio)) \<and>
         within_container (cropArea (applyAspectRatio u entry)) \<and>
         minSize \<le> crop_width (cropArea (applyAspectRatio u entry)) \<and>
         min minSize (minSize / q) \<le> crop_height (cropArea (applyAspectRatio u entry)) \<and>
         Rectangle_invariants (cropArea (applyAspectRatio v none))"
proof -
  have a: "within_container (cropArea (handleMouseMove s0 e0))"
    unfolding handleMouseMove_resize [OF any] by (rule constrainToBounds_within)
  have b: "min minSize (crop_width (initialCrop s1)) \<le> crop_width (cropArea (handleMouseMove s1 e1)) \<and>
         min minSize (crop_height (initialCrop s1)) \<le> crop_height (cropArea (handleMouseMove s1 e1))"
    unfolding handleMouseMove_resize [OF free(1,2)]
    using resizeCrop_free_floor [OF free(3), of "initialCrop s1" "fst e1 - fst (dragStart s1)"
        "snd e1 - snd (dragStart s1)" h1]
      constrainToBounds_floor [of "resizeCrop (selectedRatio s1) (initialCrop s1)
        (fst e1 - fst (dragStart s1)) (snd e1 - snd (dragStart s1)) h1"]
    by (simp add: min_def split: if_splits)
  have "minSize \<le> crop_width (initialCrop s2)" "minSize \<le> crop_height (initialCrop s2)"
    using free_inv(4) by (simp_all add: Rectangle_invariants_def)
  then have c: "minSize \<le> crop_width (cropArea (handleMouseMove s2 e2)) \<and>
         minSize \<le> crop_height (cropArea (handleMouseMove s2 e2))"
    unfolding handleMouseMove_resize [OF free_inv(1,2)]
    using free_inv(3)
    by (intro constrainToBounds_lower resizeCrop_free [THEN conjunct1] resizeCrop_free [THEN conjunct2]) simp_all
  have d: "(minSize \<le> crop_width (cropArea (handleMouseMove s3 e3)) \<or>
          minSize \<le> crop_height (cropArea (handleMouseMove s3 e3))) \<and>
         min minSize (minSize * r3) \<le> crop_width (cropArea (handleMouseMove s3 e3)) \<and>
         min minSize (minSize / r3) \<le> crop_height (cropArea (handleMouseMove s3 e3))"
    unfolding handleMouseMove_resize [OF locked(1,2)]
    by (rule locked_floor_after_clamp [OF locked(4) resizeCrop_locked_floor [OF locked(3,4)]])
  have e: "within_container (cropArea (applyAspectRatio t ratio))"
    using applyAspectRatio_locked_within [OF retarget(2,3)] Rectangle_invariants_width [OF retarget(1)]
    by simp
  note f = applyAspectRatio_locked_floor [OF retarget(2,3,1)]
  have q: "9 / 16 \<le> q"
    by (rule catalogue_ratio [OF catalogue(2,3)])
  then have q0: "0 < q" by simp
  have g: "within_container (cropArea (applyAspectRatio u entry))"
    using applyAspectRatio_locked_within [OF catalogue(3) q0] Rectangle_invariants_width [OF catalogue(1)]
    by simp
  have "minSize \<le> containerHeight * 0.8 * q"
    using q by (simp add: consts_defs)
  then have h: "minSize \<le> crop_width (cropArea (applyAspectRatio u entry)) \<and>
         min minSize (minSize / q) \<le> crop_height (cropArea (applyAspectRatio u entry))"
    using applyAspectRatio_locked_floor [OF catalogue(3) q0 catalogue(1)] by (simp add: min_def)
  have n: "\<not> truthy (ratio_value none)"
    using unconstrained(2) by simp
  have i: "Rectangle_invariants (cropArea (applyAspectRatio v none))"
    using unconstrained(1) by (simp add: applyAspectRatio_free [OF n])
  show ?thesis using a b c d e f g h i by simp
qed

text \<open>
  The hypotheses of C1 hold together in these sessions: drags of the east handle under
  16:9, of the east handle with the Free ratio from the rectangle 50 by 28.125, and of the
  south-east handle with the Free ratio from the default rectangle; a click on 9:16 with
  the default rectangle, and clicks on 16:9 and on Free with the rectangle 50 by 50.
\<close>

theorem crop_rectangle_bounds_witness:
  "isDragging (example_locked_drag 3 E) \<and> dragType (example_locked_drag 3 E) = Some (Handle E) \<and>
   isDragging example_free_flat \<and> dragType example_free_flat = Some (Handle E) \<and>
   \<not> truthy (ratio_value (selectedRatio example_free_flat)) \<and>
   initialCrop example_free_flat =
     \<lparr>crop_x = 100, crop_y = 2775 / 16, crop_width = 50, crop_height = 225 / 8\<rparr> \<and>
   isDragging (example_free_drag SE) \<and> dragType (example_free_drag SE) = Some (Handle SE) \<and>
   \<not> truthy (ratio_value (selectedRatio (example_free_drag SE))) \<and>
   Rectangle_invariants (initialCrop (example_free_drag SE)) \<and>
   ratio_value (selectedRatio (example_locked_drag 3 E)) = Some (16 / 9) \<and>
   Rectangle_invariants (cropArea example_loaded) \<and>
   ratio_value (aspectRatios ! 6) = Some (9 / 16) \<and>
   Rectangle_invariants (cropArea example_small) \<and>
   aspectRatios ! 3 \<in> set aspectRatios \<and> ratio_value (aspectRatios ! 3) = Some (16 / 9) \<and>
   ratio_value (aspectRatios ! 0) = None \<and>
   within_container (cropArea (handleMouseMove (example_locked_drag 3 E) (-250, 0))) \<and>
   min minSize (crop_width (initialCrop example_free_flat)) \<le>
     crop_width (cropArea (handleMouseMove example_free_flat (10, 0))) \<and>
   min minSize (crop_height (initialCrop example_free_flat)) \<le>
     crop_height (cropArea (handleMouseMove example_free_flat (10, 0))) \<and>
   minSize \<le> crop_width (cropArea (handleMouseMove (example_free_drag SE) (50, -20))) \<and>
   minSize \<le> crop_height (cropArea (handleMouseMove (example_free_drag SE) (50, -20))) \<and>
   (minSize \<le> crop_width (cropArea (handleMouseMove (example_locked_drag 3 E) (-250, 0))) \<or>
    minSize \<le> crop_height (cropArea (handleMouseMove (example_locked_drag 3 E) (-250, 0)))) \<and>
   min minSize (minSize * (16 / 9)) \<le> crop_width (cropArea (handleMouseMove (example_locked_drag 3 E) (-250, 0))) \<and>
   min minSize (minSize / (16 / 9)) \<le> crop_height (cropArea (handleMouseMove (example_locked_drag 3 E) (-250, 0))) \<and>
   within_container (cropArea (applyAspectRatio example_loaded (aspectRatios ! 6))) \<and>
   min minSize (containerHeight * 0.8 * (9 / 16)) \<le>
     crop_width (cropArea (applyAspectRatio example_loaded (aspectRatios ! 6))) \<and>
   min minSize (minSize / (9 / 16)) \<le> crop_height (cropArea (applyAspectRatio example_loaded (aspectRatios ! 6))) \<and>
   within_container (cropArea (applyAspectRatio example_small (aspectRatios ! 3))) \<and>
   minSize \<le> crop_width (cropArea (applyAspectRatio example_small (aspectRatios ! 3))) \<and>
   min minSize (minSize / (16 / 9)) \<le> crop_height (cropArea (applyAspectRatio example_small (aspectRatios ! 3))) \<and>
   Rectangle_invariants (cropArea (applyAspectRatio example_small (aspectRatios ! 0)))"
proof -
  have a: "isDragging (example_locked_drag 3 E)" "dragType (example_locked_drag 3 E) = Some (Handle E)"
    by (simp_all add: example_defs)
  have fc: "initialCrop example_free_flat =
     \<lparr>crop_x = 100, crop_y = 2775 / 16, crop_width = 50, crop_height = 225 / 8\<rparr>"
    by (simp add: example_free_flat_def handleMouseUp_def example_defs drag_defs)
  have f: "isDragging example_free_flat" "dragType example_free_flat = Some (Handle E)"
    "\<not> truthy (ratio_value (selectedRatio example_free_flat))"
    by (simp_all add: example_free_flat_def handleMouseUp_def handleMouseDown_def applyAspectRatio_def
        aspectRatios_def)
  have fi: "isDragging (example_free_drag SE)" "dragType (example_free_drag SE) = Some (Handle SE)"
    "\<not> truthy (ratio_value (selectedRatio (example_free_drag SE)))"
    "Rectangle_invariants (initialCrop (example_free_drag SE))"
    by (simp_all add: example_defs Rectangle_invariants_def)
  have l: "isDragging (example_locked_drag 3 E)" "dragType (example_locked_drag 3 E) = Some (Handle E)"
    "ratio_value (selectedRatio (example_locked_drag 3 E)) = Some (16 / 9)" "(0::real) < 16 / 9"
    by (simp_all add: example_defs)
  have r: "Rectangle_invariants (cropArea example_loaded)" "ratio_value (aspectRatios ! 6) = Some (9 / 16)"
    "(0::real) < 9 / 16"
    by (simp_all add: example_defs Rectangle_invariants_def)
  have sc: "cropArea example_small = \<lparr>crop_x = 100, crop_y = 75, crop_width = 50, crop_height = 50\<rparr>"
    by (simp add: example_small_def handleMouseUp_def example_defs drag_defs)
  have c: "Rectangle_invariants (cropArea example_small)" "aspectRatios ! 3 \<in> set aspectRatios"
    "ratio_value (aspectRatios ! 3) = Some (16 / 9)"
    unfolding sc by (simp_all add: Rectangle_invariants_def consts_defs aspectRatios_def)
  have u: "Rectangle_invariants (cropArea example_small)" "ratio_value (aspectRatios ! 0) = None"
    unfolding sc by (simp_all add: Rectangle_invariants_def consts_defs aspectRatios_def)
  show ?thesis
    using a fc f fi l r c u
      crop_rectangle_bounds [OF a f fi l r c u, of "(-250, 0)" "(10, 0)" "(50, -20)" "(-250, 0)"]
    by simp
qed

text \<open>
  C1 as stated fails in the height and in the width: under 16:9 the east handle dragged 250
  to the left leaves a height of 28.125, under 9:16 the north handle dragged 250 down
  leaves a width of 28.125, and a click on 16:9 with the rectangle 50 by 50 leaves a
  height of 28.125. All three start from rectangles that satisfy the invariants.
\<close>

theorem crop_minSize_counterexample:
  "isDragging (example_locked_drag 3 E) \<and> dragType (example_locked_drag 3 E) = Some (Handle E) \<and>
   Rectangle_invariants (initialCrop (example_locked_drag 3 E)) \<and>
   cropArea (handleMouseMove (example_locked_drag 3 E) (-250, 0)) =
     \<lparr>crop_x = 100, crop_y = 2775 / 16, crop_width = 50, crop_height = 225 / 8\<rparr> \<and>
   \<not> minSize \<le> crop_height (cropArea (handleMouseMove (example_locked_drag 3 E) (-250, 0))) \<and>
   isDragging (example_locked_drag 6 N) \<and> dragType (example_locked_drag 6 N) = Some (Handle N) \<and>
   Rectangle_invariants (initialCrop (example_locked_drag 6 N)) \<and>
   cropArea (handleMouseMove (example_locked_drag 6 N) (0, 250)) =
     \<lparr>crop_x = 3775 / 16, crop_y = 575 / 2, crop_width = 225 / 8, crop_height = 50\<rparr> \<and>
   \<not> minSize \<le> crop_width (cropArea (handleMouseMove (example_locked_drag 6 N) (0, 250))) \<and>
   Rectangle_invariants (cropArea example_small) \<and>
   cropArea (applyAspectRatio example_small (aspectRatios ! 3)) =
     \<lparr>crop_x = 100, crop_y = 1375 / 16, crop_width = 50, crop_height = 225 / 8\<rparr> \<and>
   \<not> minSize \<le> crop_height (cropArea (applyAspectRatio example_small (aspectRatios ! 3)))"
  by (simp add: example_small_def handleMouseUp_def example_defs drag_defs Rectangle_invariants_def)

section \<open>C2: the dimensions chosen by applyAspectRatio\<close>

lemma applyAspectRatio_widthcheck:
  assumes "ratio_value ratio = Some r" "r \<noteq> 0"
    and "containerWidth < (if containerHeight < crop_width (cropArea s) / r
           then containerHeight * 0.8 * r else crop_width (cropArea s))"
  shows "crop_width (cropArea (applyAspectRatio s ratio)) = containerWidth * 0.8 \<and>
         crop_height (cropArea (applyAspectRatio s ratio)) = containerWidth * 0.8 / r"
proof (cases "containerHeight < crop_width (cropArea s) / r")
  case True
  with assms(3) have "containerWidth < containerHeight * 0.8 * r" by simp
  with True assms(1,2) show ?thesis
    by (simp add: applyAspectRatio_def Let_def)
next
  case False
  with assms(3) have "containerWidth < crop_width (cropArea s)" by simp
  with False assms(1,2) show ?thesis
    by (simp add: applyAspectRatio_def Let_def)
qed

text \<open>
  Claim C2, as the code has it. With a positive ratio \<open>r\<close>, \<^verbatim>\<open>applyAspectRatio\<close> keeps the
  width and derives \<open>height = width / r\<close>. The rescale to 80 percent of the container height
  (with \<open>width = height * r\<close>) happens only when the derived height exceeds the whole
  container height. The width that results is then compared with the whole container
  width, and when it exceeds it the width becomes 80 percent of the container width and
  the height that width divided by \<open>r\<close>. From a rectangle that satisfies the invariants
  only the first two cases occur.
\<close>

theorem applyAspectRatio_dimensions:
  assumes keep: "ratio_value ratio1 = Some r1" "0 < r1" "Rectangle_invariants (cropArea s1)"
      "crop_width (cropArea s1) / r1 \<le> containerHeight"
    and shrink: "ratio_value ratio2 = Some r2" "0 < r2" "Rectangle_invariants (cropArea s2)"
      "containerHeight < crop_width (cropArea s2) / r2"
    and wide: "ratio_value ratio3 = Some r3" "r3 \<noteq> 0"
      "containerWidth < (if containerHeight < crop_width (cropArea s3) / r3
         then containerHeight * 0.8 * r3 else crop_width (cropArea s3))"
  shows "crop_width (cropArea (applyAspectRatio s1 ratio1)) = crop_width (cropArea s1) \<and>
         crop_height (cropArea (applyAspectRatio s1 ratio1)) = crop_width (cropArea s1) / r1 \<and>
         crop_height (cropArea (applyAspectRatio s2 ratio2)) = containerHeight * 0.8 \<and>
         crop_width (cropArea (applyAspectRatio s2 ratio2)) = containerHeight * 0.8 * r2 \<and>
         crop_width (cropArea (applyAspectRatio s3 ratio3)) = containerWidth * 0.8 \<and>
         crop_height (cropArea (applyAspectRatio s3 ratio3)) = containerWidth * 0.8 / r3"
proof -
  have w1: "crop_width (cropArea s1) \<le> containerWidth"
    using keep(3) by (simp add: Rectangle_invariants_def)
  have w2: "crop_width (cropArea s2) \<le> containerWidth"
    using shrink(3) by (simp add: Rectangle_invariants_def)
  show ?thesis
    unfolding applyAspectRatio_keep [OF keep(1,2) w1 keep(4)]
      applyAspectRatio_shrink(1) [OF shrink(1,2) w2 shrink(4)]
    using applyAspectRatio_widthcheck [OF wide] by simp
qed

text \<open>
  The three cases at concrete inputs: 2:3 on a 240 wide rectangle keeps the width, 9:16 on
  the default rectangle rescales to the height 300, and 16:9 on a 600 wide rectangle
  takes the width check.
\<close>

theorem applyAspectRatio_dimensions_witness:
  "ratio_value (aspectRatios ! 5) = Some (2 / 3) \<and>
   Rectangle_invariants (cropArea example_narrow) \<and>
   crop_width (cropArea example_narrow) / (2 / 3) \<le> containerHeight \<and>
   ratio_value (aspectRatios ! 6) = Some (9 / 16) \<and>
   Rectangle_invariants (cropArea example_loaded) \<and>
   containerHeight < crop_width (cropArea example_loaded) / (9 / 16) \<and>
   ratio_value (aspectRatios ! 3) = Some (16 / 9) \<and>
   containerWidth < (if containerHeight < crop_width (cropArea example_wide) / (16 / 9)
      then containerHeight * 0.8 * (16 / 9) else crop_width (cropArea example_wide)) \<and>
   crop_width (cropArea (applyAspectRatio example_narrow (aspectRatios ! 5))) = 240 \<and>
   crop_height (cropArea (applyAspectRatio example_narrow (aspectRatios ! 5))) = 360 \<and>
   crop_height (cropArea (applyAspectRatio example_loaded (aspectRatios ! 6))) = 300 \<and>
   crop_width (cropArea (applyAspectRatio example_loaded (aspectRatios ! 6))) = 168.75 \<and>
   crop_width (cropArea (applyAspectRatio example_wide (aspectRatios ! 3))) = 400 \<and>
   crop_height (cropArea (applyAspectRatio example_wide (aspectRatios ! 3))) = 225"
proof -
  have n: "cropArea example_narrow = \<lparr>crop_x = 100, crop_y = 75, crop_width = 240, crop_height = 225\<rparr>"
    by (simp add: example_narrow_def handleMouseUp_def example_defs drag_defs)
  have k: "ratio_value (aspectRatios ! 5) = Some (2 / 3)" "(0::real) < 2 / 3"
    "Rectangle_invariants (cropArea example_narrow)"
    "crop_width (cropArea example_narrow) / (2 / 3) \<le> containerHeight"
    unfolding n by (simp_all add: aspectRatios_def Rectangle_invariants_def consts_defs)
  have s: "ratio_value (aspectRatios ! 6) = Some (9 / 16)" "(0::real) < 9 / 16"
    "Rectangle_invariants (cropArea example_loaded)"
    "containerHeight < crop_width (cropArea example_loaded) / (9 / 16)"
    by (simp_all add: aspectRatios_def example_loaded_defs Rectangle_invariants_def consts_defs)
  have w: "ratio_value (aspectRatios ! 3) = Some (16 / 9)" "(16::real) / 9 \<noteq> 0"
    "containerWidth < (if containerHeight < crop_width (cropArea example_wide) / (16 / 9)
      then containerHeight * 0.8 * (16 / 9) else crop_width (cropArea example_wide))"
    by (simp_all add: aspectRatios_def example_wide_def Rectangle_invariants_def consts_defs)
  show ?thesis
    using k s w applyAspectRatio_dimensions [OF k s w]
    by (simp add: n) (simp add: example_loaded_defs example_wide_def consts_defs)
qed

text \<open>
  C2 as stated fails: with 2:3 on a 240 wide rectangle the derived height 360 exceeds 80
  percent of the container height (300) and is kept, since it does not exceed 375.
\<close>

theorem applyAspectRatio_threshold_counterexample:
  "Rectangle_invariants (cropArea example_narrow) \<and>
   ratio_value (aspectRatios ! 5) = Some (2 / 3) \<and>
   containerHeight * 0.8 < crop_width (cropArea example_narrow) / (2 / 3) \<and>
   cropArea (applyAspectRatio example_narrow (aspectRatios ! 5)) =
     \<lparr>crop_x = 100, crop_y = 15 / 2, crop_width = 240, crop_height = 360\<rparr> \<and>
   crop_height (cropArea (applyAspectRatio example_narrow (aspectRatios ! 5))) \<noteq> containerHeight * 0.8"
  by (simp add: example_narrow_def handleMouseUp_def example_defs drag_defs Rectangle_invariants_def)

section \<open>C3: the zoom and rotation controls\<close>

text \<open>
  The zoom buttons clamp to the range of the zoom slider, and the rotation slider and the
  preset buttons deliver angles in the range of the rotation slider.
\<close>

lemma zoom_controls_in_range:
  assumes "zoom_in_range (zoom s)" "zoom_in_range v"
  shows "zoom_in_range (zoom (zoomOutClick s)) \<and> zoom_in_range (zoom (zoomInClick s)) \<and>
         zoom_in_range (zoom (zoomSliderChange s v))"
  using assms by (simp add: zoom_in_range_def zoomOutClick_def zoomInClick_def zoomSliderChange_def)

lemma rotation_slider_presets_in_range:
  assumes "rotation_in_range v" "deg \<in> set presetAngles"
  shows "rotation_in_range (rotation (rotationSliderChange s v)) \<and>
         rotation_in_range (rotation (presetAngleClick s deg))"
  using assms
  by (auto simp: rotation_in_range_def rotationSliderChange_def presetAngleClick_def presetAngles_def)

lemma quick_rotate_value:
  "rotation (rotateLeftClick s) = rotation s - 90 \<and> rotation (rotateRightClick s) = rotation s + 90"
  by (simp add: rotateLeftClick_def rotateRightClick_def)

text \<open>
  Claim C3 says that every zoom and rotation control keeps the rotation between -180 and
  180. The quick-rotate buttons add or subtract 90 without a bound: after the preset 180
  the right button gives 270, and three clicks on the left button give -270.
\<close>

theorem quick_rotate_leaves_range:
  "180 \<in> set presetAngles \<and>
   rotation_in_range (rotation (presetAngleClick example_loaded 180)) \<and>
   rotation (rotateRightClick (presetAngleClick example_loaded 180)) = 270 \<and>
   \<not> rotation_in_range (rotation (rotateRightClick (presetAngleClick example_loaded 180))) \<and>
   rotation (rotateLeftClick (rotateLeftClick (rotateLeftClick example_loaded))) = - 270 \<and>
   \<not> rotation_in_range (rotation (rotateLeftClick (rotateLeftClick (rotateLeftClick example_loaded))))"
  by (simp add: presetAngles_def rotation_in_range_def presetAngleClick_def rotateRightClick_def
      rotateLeftClick_def example_loaded_defs)

section \<open>C4: the locked ratio\<close>

lemma resizeCrop_locked_quot:
  assumes "ratio_value sel = Some r" "0 < r"
  shows "crop_width (resizeCrop sel init dx dy hp) / crop_height (resizeCrop sel init dx dy hp) = r"
proof -
  have "crop_height (resizeCrop sel init dx dy hp) \<noteq> 0"
    using resizeCrop_locked_pos [OF assms, of init dx dy hp] by simp
  moreover have "crop_width (resizeCrop sel init dx dy hp) = crop_height (resizeCrop sel init dx dy hp) * r"
    using assms by (intro resizeCrop_locked_ratio) simp_all
  ultimately show ?thesis by simp
qed

text \<open>
  Claim C4, as the code has it. With the ratio locked to a positive \<open>r\<close>, the rectangle
  that the handle arithmetic of \<^verbatim>\<open>handleMouseMove\<close> computes before the bounds clamp has
  \<open>width / height = r\<close>, and so has the rectangle produced whenever that rectangle lies
  within the container, where the clamp leaves width and height alone. Every rectangle
  produced by \<^verbatim>\<open>applyAspectRatio\<close> from a rectangle that satisfies the invariants has
  \<open>width / height = r\<close>. The equalities are exact on the reals, so the distance to \<open>r\<close> is
  below every positive bound.
\<close>

theorem locked_ratio_kept:
  assumes pre: "ratio_value sel = Some r" "0 < r"
    and drag: "isDragging s" "dragType s = Some (Handle h)"
      "ratio_value (selectedRatio s) = Some r'" "0 < r'"
      "within_container (resizeCrop (selectedRatio s) (initialCrop s)
          (fst e - fst (dragStart s)) (snd e - snd (dragStart s)) h)"
    and retarget: "Rectangle_invariants (cropArea t)" "ratio_value ratio = Some q" "0 < q"
  shows "crop_width (resizeCrop sel init dx dy hp) / crop_height (resizeCrop sel init dx dy hp) = r \<and>
         crop_width (cropArea (handleMouseMove s e)) / crop_height (cropArea (handleMouseMove s e)) = r' \<and>
         crop_width (cropArea (applyAspectRatio t ratio)) / crop_height (cropArea (applyAspectRatio t ratio)) = q"
proof -
  have a: "crop_width (resizeCrop sel init dx dy hp) / crop_height (resizeCrop sel init dx dy hp) = r"
    by (rule resizeCrop_locked_quot [OF pre])
  have b: "crop_width (cropArea (handleMouseMove s e)) / crop_height (cropArea (handleMouseMove s e)) = r'"
    unfolding handleMouseMove_resize [OF drag(1,2)]
    using constrainToBounds_fits [OF drag(5)] resizeCrop_locked_quot [OF drag(3,4)] by simp
  have c: "crop_width (cropArea (applyAspectRatio t ratio)) / crop_height (cropArea (applyAspectRatio t ratio)) = q"
    using applyAspectRatio_locked_within [OF retarget(2,3)] Rectangle_invariants_width [OF retarget(1)]
    by simp
  show ?thesis using a b c by simp
qed

text \<open>
  The hypotheses of C4 at concrete inputs: the north-west handle under 4:3, the south-east
  handle dragged by 30 under 1:1, and a click on 9:16.
\<close>

theorem locked_ratio_kept_witness:
  "ratio_value (aspectRatios ! 2) = Some (4 / 3) \<and>
   isDragging (example_locked_drag 1 SE) \<and> dragType (example_locked_drag 1 SE) = Some (Handle SE) \<and>
   ratio_value (selectedRatio (example_locked_drag 1 SE)) = Some 1 \<and>
   within_container (resizeCrop (selectedRatio (example_locked_drag 1 SE)) (initialCrop (example_locked_drag 1 SE))
      (fst (30::real, 0::real) - fst (dragStart (example_locked_drag 1 SE)))
      (snd (30::real, 0::real) - snd (dragStart (example_locked_drag 1 SE))) SE) \<and>
   Rectangle_invariants (cropArea example_loaded) \<and>
   ratio_value (aspectRatios ! 6) = Some (9 / 16) \<and>
   crop_width (resizeCrop (aspectRatios ! 2) (cropArea example_loaded) 10 80 NW) /
     crop_height (resizeCrop (aspectRatios ! 2) (cropArea example_loaded) 10 80 NW) = 4 / 3 \<and>
   crop_width (cropArea (handleMouseMove (example_locked_drag 1 SE) (30, 0))) /
     crop_height (cropArea (handleMouseMove (example_locked_drag 1 SE) (30, 0))) = 1 \<and>
   crop_width (cropArea (applyAspectRatio example_loaded (aspectRatios ! 6))) /
     crop_height (cropArea (applyAspectRatio example_loaded (aspectRatios ! 6))) = 9 / 16"
proof -
  have p: "ratio_value (aspectRatios ! 2) = Some (4 / 3)" "(0::real) < 4 / 3"
    by (simp_all add: aspectRatios_def)
  have d: "isDragging (example_locked_drag 1 SE)" "dragType (example_locked_drag 1 SE) = Some (Handle SE)"
    "ratio_value (selectedRatio (example_locked_drag 1 SE)) = Some 1" "(0::real) < 1"
    "within_container (resizeCrop (selectedRatio (example_locked_drag 1 SE)) (initialCrop (example_locked_drag 1 SE))
      (fst (30::real, 0::real) - fst (dragStart (example_locked_drag 1 SE)))
      (snd (30::real, 0::real) - snd (dragStart (example_locked_drag 1 SE))) SE)"
    by (simp_all add: example_defs drag_defs within_container_def)
  have r: "Rectangle_invariants (cropArea example_loaded)" "ratio_value (aspectRatios ! 6) = Some (9 / 16)"
    "(0::real) < 9 / 16"
    by (simp_all add: aspectRatios_def example_loaded_defs Rectangle_invariants_def consts_defs)
  show ?thesis
    using p d r locked_ratio_kept [OF p d r, of "cropArea example_loaded" 10 80 NW] by simp
qed

text \<open>
  C4 as stated fails: under 1:1, from the 300 by 300 rectangle at (100, 37.5), the
  south-east handle dragged 200 to the right gives the 500 by 500 rectangle, which the
  bounds clamp cuts to 400 by 337.5.
\<close>

theorem locked_ratio_counterexample:
  "isDragging (example_locked_drag 1 SE) \<and> dragType (example_locked_drag 1 SE) = Some (Handle SE) \<and>
   ratio_value (selectedRatio (example_locked_drag 1 SE)) = Some 1 \<and>
   Rectangle_invariants (initialCrop (example_locked_drag 1 SE)) \<and>
   cropArea (handleMouseMove (example_locked_drag 1 SE) (200, 0)) =
     \<lparr>crop_x = 100, crop_y = 75 / 2, crop_width = 400, crop_height = 675 / 2\<rparr> \<and>
   \<not> \<bar>crop_width (cropArea (handleMouseMove (example_locked_drag 1 SE) (200, 0))) /
       crop_height (cropArea (handleMouseMove (example_locked_drag 1 SE) (200, 0))) - 1\<bar> < 1 / 10"
  by (simp add: example_defs drag_defs Rectangle_invariants_def)

section \<open>C5: the south-east handle with the Free ratio\<close>

text \<open>
  Claim C5. With the Free entry of the catalogue, the south-east case of the handle
  arithmetic gives \<open>width = max minSize (startWidth + dx)\<close> and
  \<open>height = max minSize (startHeight + dy)\<close> and keeps \<open>x\<close> and \<open>y\<close> of the rectangle
  at the start, before the bounds clamp. Dragging the south-east handle of the rectangle
  300 by 225 at (100, 75) by (50, -20) yields the rectangle 350 by 205 at (100, 75).
\<close>

theorem southeast_free_drag:
  "ratio_name (aspectRatios ! 0) = ''Free'' \<and> ratio_value (aspectRatios ! 0) = None \<and>
   crop_width (resizeCrop (aspectRatios ! 0) init deltaX deltaY SE) = max minSize (crop_width init + deltaX) \<and>
   crop_height (resizeCrop (aspectRatios ! 0) init deltaX deltaY SE) = max minSize (crop_height init + deltaY) \<and>
   crop_x (resizeCrop (aspectRatios ! 0) init deltaX deltaY SE) = crop_x init \<and>
   crop_y (resizeCrop (aspectRatios ! 0) init deltaX deltaY SE) = crop_y init \<and>
   selectedRatio (example_free_drag SE) = aspectRatios ! 0 \<and>
   initialCrop (example_free_drag SE) = \<lparr>crop_x = 100, crop_y = 75, crop_width = 300, crop_height = 225\<rparr> \<and>
   cropArea (handleMouseMove (example_free_drag SE) (50, -20)) =
     \<lparr>crop_x = 100, crop_y = 75, crop_width = 350, crop_height = 205\<rparr>"
  by (simp add: example_defs drag_defs)

section \<open>C6: a load resets the session\<close>

text \<open>
  Claim C6. When the file reader delivers the data URL of an image file, when the image of
  the submitted URL loads, and when the sample image is generated, the state afterwards has
  the rectangle 300 by 225 at (100, 75), which is centred in the container, zoom 1,
  rotation 0 and the first ratio of the catalogue, which is Free and unconstrained.
\<close>

theorem load_resets_session:
  assumes "prefix ''image/'' (file_type file)" and "trim (urlInput u) \<noteq> []"
  shows "session_reset (handleFileUpload s file (ReadLoaded result)) \<and>
         session_reset (handleUrlSubmit u ImgLoaded) \<and>
         session_reset (loadSampleImage t sampleUrl) \<and>
         ratio_name (aspectRatios ! 0) = ''Free'' \<and> ratio_value (aspectRatios ! 0) = None \<and>
         (100::real) = (containerWidth - 300) / 2 \<and> (75::real) = (containerHeight - 225) / 2"
  using assms
  by (simp add: handleFileUpload_def handleUrlSubmit_def loadSampleImage_def reader_onload_def
      img_onload_def resetCrop_session_reset aspectRatios_def consts_defs)

text \<open>The hypotheses of C6 hold for a PNG file and for the URL typed in the example.\<close>

theorem load_resets_session_witness:
  "prefix ''image/'' (file_type example_png) \<and> trim (urlInput example_url_typed) \<noteq> [] \<and>
   session_reset (handleFileUpload example_url_typed example_png (ReadLoaded ''data:image/png;base64,BBBB'')) \<and>
   session_reset (handleUrlSubmit example_url_typed ImgLoaded) \<and>
   session_reset (loadSampleImage example_url_typed ''data:image/png;base64,AAAA'')"
proof -
  have a: "prefix ''image/'' (file_type example_png)"
    by (simp add: example_png_def)
  have b: "trim (urlInput example_url_typed) \<noteq> []"
    by (simp add: example_url_typed_defs trim_def isWhiteSpace_def)
  show ?thesis
    using a b load_resets_session [OF a b, of example_url_typed "''data:image/png;base64,BBBB''"
        example_url_typed "''data:image/png;base64,AAAA''"]
    by simp
qed

section \<open>C7: a failed load changes nothing in the editor\<close>

text \<open>
  Claim C7. A file of an unsupported type, a read error of the file reader and a load
  error of the URL image leave the crop rectangle, zoom, rotation, selected ratio and the
  loaded image as they were, and the page stays the upload area or the editor as before.
  A load that succeeds shows the editor with the session reset.
\<close>

theorem failed_load_keeps_state:
  assumes "\<not> prefix ''image/'' (file_type other)"
    and "prefix ''image/'' (file_type file)" "result \<noteq> []" "trim (urlInput u) \<noteq> []"
  shows "editor_unchanged s (handleFileUpload s other outcome) \<and>
         editor_unchanged s (handleFileUpload s file ReadFailed) \<and>
         editor_unchanged u (handleUrlSubmit u ImgError) \<and>
         editing (handleFileUpload s file (ReadLoaded result)) \<and>
         session_reset (handleFileUpload s file (ReadLoaded result)) \<and>
         editing (handleUrlSubmit u ImgLoaded) \<and>
         session_reset (handleUrlSubmit u ImgLoaded)"
proof -
  have "urlInput u \<noteq> []"
    using assms(4) trim_Nil by auto
  then show ?thesis
    using assms
    by (simp add: editor_unchanged_def handleFileUpload_def handleUrlSubmit_def reader_onload_def
        reader_onerror_def img_onload_def img_onerror_def resetCrop_session_reset)
      (simp add: resetCrop_def)
qed

text \<open>
  The hypotheses of C7 hold in the example, where the zoom is 1.1 and the rotation 90
  before the failed attempts.
\<close>

theorem failed_load_keeps_state_witness:
  "\<not> prefix ''image/'' (file_type example_pdf) \<and> prefix ''image/'' (file_type example_png) \<and>
   ''data:image/png;base64,BBBB'' \<noteq> [] \<and> trim (urlInput example_url_typed) \<noteq> [] \<and>
   \<not> editing example_url_typed \<and> zoom example_url_typed = 11 / 10 \<and> rotation example_url_typed = 90 \<and>
   editor_unchanged example_url_typed (handleFileUpload example_url_typed example_pdf ReadFailed) \<and>
   editor_unchanged example_url_typed (handleFileUpload example_url_typed example_png ReadFailed) \<and>
   editor_unchanged example_url_typed (handleUrlSubmit example_url_typed ImgError) \<and>
   editing (handleFileUpload example_url_typed example_png (ReadLoaded ''data:image/png;base64,BBBB'')) \<and>
   session_reset (handleFileUpload example_url_typed example_png (ReadLoaded ''data:image/png;base64,BBBB'')) \<and>
   editing (handleUrlSubmit example_url_typed ImgLoaded) \<and>
   session_reset (handleUrlSubmit example_url_typed ImgLoaded)"
proof -
  have a: "\<not> prefix ''image/'' (file_type example_pdf)" "prefix ''image/'' (file_type example_png)"
    "''data:image/png;base64,BBBB'' \<noteq> []"
    by (simp_all add: example_pdf_def example_png_def)
  have b: "trim (urlInput example_url_typed) \<noteq> []"
    by (simp add: example_url_typed_defs trim_def isWhiteSpace_def)
  have c: "\<not> editing example_url_typed" "zoom example_url_typed = 11 / 10" "rotation example_url_typed = 90"
    by (simp_all add: example_url_typed_defs)
  show ?thesis
    using a b c failed_load_keeps_state [OF a b, of example_url_typed ReadFailed]
    by simp
qed

section \<open>C8: applying a ratio twice\<close>

lemma applyAspectRatio_state:
  "applyAspectRatio s ratio = s\<lparr>selectedRatio := ratio, cropArea := cropArea (applyAspectRatio s ratio)\<rparr>"
  by (cases "ratio_value ratio") (simp_all add: applyAspectRatio_def Let_def split: prod.splits)

lemma applyAspectRatio_again:
  assumes "ratio_value ratio = Some r" "0 < r" "0 < crop_width (cropArea s)"
    "crop_width (cropArea s) \<le> containerWidth"
  shows "cropArea (applyAspectRatio (applyAspectRatio s ratio) ratio) = cropArea (applyAspectRatio s ratio)"
proof (cases "crop_width (cropArea s) / r > containerHeight")
  case True
  note sh = applyAspectRatio_shrink [OF assms(1,2,4) True]
  let ?s' = "applyAspectRatio s ratio"
  have w': "crop_width (cropArea ?s') \<le> containerWidth"
    using sh(2) unfolding sh(1) by simp
  have h': "crop_width (cropArea ?s') / r \<le> containerHeight"
    using assms(2) unfolding sh(1) by (simp add: consts_defs)
  show ?thesis
    unfolding applyAspectRatio_keep [OF assms(1,2) w' h']
    using sh(2) assms(2) unfolding sh(1)
    by (simp add: consts_defs min_def max_def)
next
  case False
  then have le: "crop_width (cropArea s) / r \<le> containerHeight" by simp
  note kp = applyAspectRatio_keep [OF assms(1,2,4) le]
  let ?s' = "applyAspectRatio s ratio"
  have w': "crop_width (cropArea ?s') \<le> containerWidth"
    using assms(4) unfolding kp by simp
  have h': "crop_width (cropArea ?s') / r \<le> containerHeight"
    using le unfolding kp by simp
  show ?thesis
    unfolding applyAspectRatio_keep [OF assms(1,2) w' h']
    using le assms(4) unfolding kp
    by (simp add: min_def max_def)
qed

lemma finer_numeral:
  "finer (numeral k) a p = (if a < 2 ^ 52 then finer (pred_numeral k) (a * 2) (p / 2) else p)"
  by (simp add: numeral_eq_Suc)

lemma coarser_numeral:
  "coarser (numeral k) a p = (if 2 ^ 53 \<le> a then coarser (pred_numeral k) (a / 2) (p * 2) else p)"
  by (simp add: numeral_eq_Suc)

lemmas fl_eval = fl_def spacing_def finer_numeral coarser_numeral roundTiesToEven_def Let_def

lemma applyAspectRatio_rounded_exact:
  "applyAspectRatio_rounded (\<lambda>x. x) s ratio = applyAspectRatio s ratio"
  by (simp add: applyAspectRatio_rounded_def applyAspectRatio_def)

lemma applyAspectRatio_rounded_free:
  assumes "ratio_value free = None"
  shows "applyAspectRatio_rounded rnd s free = s\<lparr>selectedRatio := free\<rparr>"
  using assms by (simp add: applyAspectRatio_rounded_def)

lemma applyAspectRatio_rounded_keep:
  assumes "ratio_value ratio = Some r" "r \<noteq> 0"
    and "rnd (crop_width (cropArea s) / r) \<le> containerHeight"
    and "crop_width (cropArea s) \<le> containerWidth"
  shows "cropArea (applyAspectRatio_rounded rnd s ratio) =
      \<lparr>crop_x = max 0 (min (rnd (containerWidth - crop_width (cropArea s)))
                  (rnd (rnd (crop_x (cropArea s) + rnd (crop_width (cropArea s) / 2)) -
                        rnd (crop_width (cropArea s) / 2)))),
       crop_y = max 0 (min (rnd (containerHeight - rnd (crop_width (cropArea s) / r)))
                  (rnd (rnd (crop_y (cropArea s) + rnd (crop_height (cropArea s) / 2)) -
                        rnd (rnd (crop_width (cropArea s) / r) / 2)))),
       crop_width = crop_width (cropArea s),
       crop_height = rnd (crop_width (cropArea s) / r)\<rparr>"
proof -
  have "\<not> rnd (crop_width (cropArea s) / r) > containerHeight" "\<not> crop_width (cropArea s) > containerWidth"
    using assms(3,4) by simp_all
  then show ?thesis
    using assms(1,2) by (simp add: applyAspectRatio_rounded_def Let_def)
qed

lemma example_tall_crop:
  "cropArea example_tall = \<lparr>crop_x = 100, crop_y = 195, crop_width = 383, crop_height = 105\<rparr>"
  by (simp add: example_tall_def handleMouseUp_def example_defs drag_defs)

text \<open>
  Claim C8, as the code has it. In exact arithmetic \<^verbatim>\<open>applyAspectRatio\<close> is idempotent:
  for every ratio locked to a positive value and every state whose rectangle satisfies the
  invariants, applying it twice gives the state that applying it once gives. With an
  unconstrained ratio the rectangle is unchanged in any arithmetic, and a second
  application changes nothing. In the rounded arithmetic of the source, with any rounding
  \<open>rnd\<close>, a second application returns the width and the height of the first whenever the
  first application rescales nothing; \<open>x\<close> and \<open>y\<close> are not covered.
\<close>

theorem applyAspectRatio_idempotent_exact:
  assumes exact: "Rectangle_invariants (cropArea s)" "ratio_value ratio = Some r" "0 < r"
    and free: "ratio_value free = None"
    and keep: "ratio_value ratio' = Some r'" "r' \<noteq> 0"
      "rnd (crop_width (cropArea t) / r') \<le> containerHeight" "crop_width (cropArea t) \<le> containerWidth"
  shows "applyAspectRatio_rounded (\<lambda>x. x) s ratio = applyAspectRatio s ratio \<and>
         applyAspectRatio (applyAspectRatio s ratio) ratio = applyAspectRatio s ratio \<and>
         cropArea (applyAspectRatio_rounded rnd u free) = cropArea u \<and>
         applyAspectRatio_rounded rnd (applyAspectRatio_rounded rnd u free) free =
           applyAspectRatio_rounded rnd u free \<and>
         crop_width (cropArea (applyAspectRatio_rounded rnd (applyAspectRatio_rounded rnd t ratio') ratio')) =
           crop_width (cropArea (applyAspectRatio_rounded rnd t ratio')) \<and>
         crop_height (cropArea (applyAspectRatio_rounded rnd (applyAspectRatio_rounded rnd t ratio') ratio')) =
           crop_height (cropArea (applyAspectRatio_rounded rnd t ratio'))"
proof -
  have c: "cropArea (applyAspectRatio (applyAspectRatio s ratio) ratio) = cropArea (applyAspectRatio s ratio)"
    using applyAspectRatio_again [OF exact(2,3)] Rectangle_invariants_width [OF exact(1)] by simp
  have "applyAspectRatio (applyAspectRatio s ratio) ratio =
        (applyAspectRatio s ratio)\<lparr>selectedRatio := ratio,
           cropArea := cropArea (applyAspectRatio (applyAspectRatio s ratio) ratio)\<rparr>"
    by (rule applyAspectRatio_state)
  also have "\<dots> = (applyAspectRatio s ratio)\<lparr>selectedRatio := ratio, cropArea := cropArea (applyAspectRatio s ratio)\<rparr>"
    unfolding c ..
  also have "\<dots> = s\<lparr>selectedRatio := ratio, cropArea := cropArea (applyAspectRatio s ratio)\<rparr>"
    by (subst (2) applyAspectRatio_state) simp
  also have "\<dots> = applyAspectRatio s ratio"
    by (rule applyAspectRatio_state [symmetric])
  finally have a: "applyAspectRatio (applyAspectRatio s ratio) ratio = applyAspectRatio s ratio" .
  note k1 = applyAspectRatio_rounded_keep [where rnd = rnd and s = t, OF keep]
  have p: "rnd (crop_width (cropArea (applyAspectRatio_rounded rnd t ratio')) / r') \<le> containerHeight"
    "crop_width (cropArea (applyAspectRatio_rounded rnd t ratio')) \<le> containerWidth"
    unfolding k1 using keep(3,4) by simp_all
  note k2 = applyAspectRatio_rounded_keep
    [where rnd = rnd and s = "applyAspectRatio_rounded rnd t ratio'", OF keep(1,2) p]
  have w: "crop_width (cropArea (applyAspectRatio_rounded rnd (applyAspectRatio_rounded rnd t ratio') ratio')) =
           crop_width (cropArea (applyAspectRatio_rounded rnd t ratio'))"
    "crop_height (cropArea (applyAspectRatio_rounded rnd (applyAspectRatio_rounded rnd t ratio') ratio')) =
           crop_height (cropArea (applyAspectRatio_rounded rnd t ratio'))"
    unfolding k2 unfolding k1 by simp_all
  show ?thesis
    using a w by (simp add: applyAspectRatio_rounded_exact applyAspectRatio_rounded_free [OF free])
qed

text \<open>
  The hypotheses of C8 hold for the default rectangle with 9:16 and Free, and in double
  precision for the rectangle 383 by 105 with 3:2.
\<close>

theorem applyAspectRatio_idempotent_exact_witness:
  "Rectangle_invariants (cropArea example_loaded) \<and>
   ratio_value (aspectRatios ! 6) = Some (9 / 16) \<and>
   ratio_value (aspectRatios ! 0) = None \<and>
   ratio_value (aspectRatios ! 4) = Some (3 / 2) \<and>
   fl (crop_width (cropArea example_tall) / (3 / 2)) \<le> containerHeight \<and>
   crop_width (cropArea example_tall) \<le> containerWidth \<and>
   applyAspectRatio (applyAspectRatio example_loaded (aspectRatios ! 6)) (aspectRatios ! 6) =
     applyAspectRatio example_loaded (aspectRatios ! 6) \<and>
   cropArea (applyAspectRatio_rounded fl example_tall (aspectRatios ! 0)) = cropArea example_tall \<and>
   crop_width (cropArea (applyAspectRatio_rounded fl (applyAspectRatio_rounded fl example_tall (aspectRatios ! 4))
       (aspectRatios ! 4))) =
     crop_width (cropArea (applyAspectRatio_rounded fl example_tall (aspectRatios ! 4))) \<and>
   crop_height (cropArea (applyAspectRatio_rounded fl (applyAspectRatio_rounded fl example_tall (aspectRatios ! 4))
       (aspectRatios ! 4))) =
     crop_height (cropArea (applyAspectRatio_rounded fl example_tall (aspectRatios ! 4)))"
proof -
  have i: "Rectangle_invariants (cropArea example_loaded)"
    by (simp add: example_loaded_defs Rectangle_invariants_def consts_defs)
  have l: "ratio_value (aspectRatios ! 6) = Some (9 / 16)" "(0::real) < 9 / 16"
    by (simp_all add: aspectRatios_def)
  have f: "ratio_value (aspectRatios ! 0) = None"
    by (simp add: aspectRatios_def)
  have k: "ratio_value (aspectRatios ! 4) = Some (3 / 2)" "(3::real) / 2 \<noteq> 0"
    "fl (crop_width (cropArea example_tall) / (3 / 2)) \<le> containerHeight"
    "crop_width (cropArea example_tall) \<le> containerWidth"
    unfolding example_tall_crop by (simp_all add: aspectRatios_def fl_eval consts_defs)
  show ?thesis
    using i l f k applyAspectRatio_idempotent_exact [where rnd = fl, OF i l f k, of example_tall]
    by simp
qed

text \<open>
  The two clicks on 3:2 in double precision, with the rectangle 383 by 105 at (100, 195).
  The first click gives the height 255.33333333333334 and, clamped to the bottom of the
  container, \<open>y = 119.66666666666666\<close>; the second recomputes the centre from these and
  gives \<open>y = 119.66666666666664\<close>, one unit in the last place lower.
\<close>

lemma double_first_click:
  "cropArea (applyAspectRatio_rounded fl example_tall (aspectRatios ! 4)) =
     \<lparr>crop_x = 100, crop_y = 4210396526630229 / 35184372088832,
      crop_width = 383, crop_height = 8983743006681771 / 35184372088832\<rparr>"
proof -
  have r: "ratio_value (aspectRatios ! 4) = Some (3 / 2)" "(3::real) / 2 \<noteq> 0"
    by (simp_all add: aspectRatios_def)
  have p: "fl (crop_width (cropArea example_tall) / (3 / 2)) \<le> containerHeight"
    "crop_width (cropArea example_tall) \<le> containerWidth"
    unfolding example_tall_crop by (simp_all add: fl_eval consts_defs)
  show ?thesis
    unfolding applyAspectRatio_rounded_keep [where rnd = fl and s = example_tall, OF r p] example_tall_crop
    by (simp add: fl_eval consts_defs)
qed

lemma double_second_click:
  "cropArea (applyAspectRatio_rounded fl (applyAspectRatio_rounded fl example_tall (aspectRatios ! 4))
       (aspectRatios ! 4)) =
     \<lparr>crop_x = 100, crop_y = 8420793053260457 / 70368744177664,
      crop_width = 383, crop_height = 8983743006681771 / 35184372088832\<rparr>"
proof -
  have r: "ratio_value (aspectRatios ! 4) = Some (3 / 2)" "(3::real) / 2 \<noteq> 0"
    by (simp_all add: aspectRatios_def)
  have p: "fl (crop_width (cropArea (applyAspectRatio_rounded fl example_tall (aspectRatios ! 4))) / (3 / 2))
       \<le> containerHeight"
    "crop_width (cropArea (applyAspectRatio_rounded fl example_tall (aspectRatios ! 4))) \<le> containerWidth"
    unfolding double_first_click by (simp_all add: fl_eval consts_defs)
  show ?thesis
    unfolding applyAspectRatio_rounded_keep
      [where rnd = fl and s = "applyAspectRatio_rounded fl example_tall (aspectRatios ! 4)", OF r p] double_first_click
    by (simp add: fl_eval consts_defs)
qed

text \<open>
  C8 as stated fails: in double precision the second click on 3:2 moves the rectangle
  383 by 105 at (100, 195), which satisfies the invariants, from the \<open>y\<close> of the first
  click.
\<close>

theorem applyAspectRatio_double_counterexample:
  "cropArea example_tall = \<lparr>crop_x = 100, crop_y = 195, crop_width = 383, crop_height = 105\<rparr> \<and>
   Rectangle_invariants (cropArea example_tall) \<and>
   ratio_value (aspectRatios ! 4) = Some (3 / 2) \<and> fl (3 / 2) = 3 / 2 \<and>
   cropArea (applyAspectRatio_rounded fl example_tall (aspectRatios ! 4)) =
     \<lparr>crop_x = 100, crop_y = 4210396526630229 / 35184372088832,
      crop_width = 383, crop_height = 8983743006681771 / 35184372088832\<rparr> \<and>
   cropArea (applyAspectRatio_rounded fl (applyAspectRatio_rounded fl example_tall (aspectRatios ! 4))
       (aspectRatios ! 4)) =
     \<lparr>crop_x = 100, crop_y = 8420793053260457 / 70368744177664,
      crop_width = 383, crop_height = 8983743006681771 / 35184372088832\<rparr> \<and>
   applyAspectRatio_rounded fl (applyAspectRatio_rounded fl example_tall (aspectRatios ! 4)) (aspectRatios ! 4) \<noteq>
     applyAspectRatio_rounded fl example_tall (aspectRatios ! 4)"
proof -
  have ne: "applyAspectRatio_rounded fl (applyAspectRatio_rounded fl example_tall (aspectRatios ! 4)) (aspectRatios ! 4) \<noteq>
     applyAspectRatio_rounded fl example_tall (aspectRatios ! 4)"
  proof
    assume "applyAspectRatio_rounded fl (applyAspectRatio_rounded fl example_tall (aspectRatios ! 4)) (aspectRatios ! 4) =
     applyAspectRatio_rounded fl example_tall (aspectRatios ! 4)"
    then have "cropArea (applyAspectRatio_rounded fl (applyAspectRatio_rounded fl example_tall (aspectRatios ! 4)) (aspectRatios ! 4)) =
     cropArea (applyAspectRatio_rounded fl example_tall (aspectRatios ! 4))" by simp
    then show False unfolding double_first_click double_second_click by simp
  qed
  have i: "Rectangle_invariants (cropArea example_tall)"
    unfolding example_tall_crop by (simp add: Rectangle_invariants_def consts_defs)
  have f: "fl (3 / 2) = 3 / 2" "ratio_value (aspectRatios ! 4) = Some (3 / 2)"
    by (simp_all add: fl_eval aspectRatios_def)
  show ?thesis using example_tall_crop double_first_click double_second_click ne i f by simp
qed

section \<open>C9: the source region at identity scale\<close>

text \<open>
  Claim C9. With \<open>zoom = 1\<close> and an image whose pixel size is the container size,
  \<open>scaleX\<close> and \<open>scaleY\<close> are 1 and the source region computed by \<^verbatim>\<open>updatePreview\<close> is the
  crop rectangle.
\<close>

theorem updatePreview_identity_scale:
  "updatePreview (s\<lparr>zoom := 1\<rparr>) True (Some (containerWidth, containerHeight)) =
     Some \<lparr>sourceX = crop_x (cropArea s), sourceY = crop_y (cropArea s),
           sourceWidth = crop_width (cropArea s), sourceHeight = crop_height (cropArea s)\<rparr>"
  by (simp add: updatePreview_def consts_defs)

section \<open>C10: the east and west handles under a locked ratio\<close>

text \<open>
  Claim C10, as the code has it. For the handles east and west under a locked ratio \<open>r\<close>,
  with \<open>newWidth = max minSize (startWidth \<plusminus> dx)\<close> and \<open>newHeight = newWidth / r\<close>, the
  handle arithmetic sets \<open>y = startY + (startHeight - newHeight) / 2\<close>; the rectangle
  produced has this value clamped to the interval from 0 to \<open>containerHeight - minSize\<close>.
\<close>

theorem horizontal_handle_recentres:
  assumes "isDragging s" "dragType s = Some (Handle h)" "h = E \<or> h = W"
    and "ratio_value (selectedRatio s) = Some r" "r \<noteq> 0"
    and "deltaX = fst e - fst (dragStart s)"
    and "newWidth = max minSize (if h = E then crop_width (initialCrop s) + deltaX
                                 else crop_width (initialCrop s) - deltaX)"
    and "newHeight = newWidth / r"
  shows "crop_y (resizeCrop (selectedRatio s) (initialCrop s) deltaX (snd e - snd (dragStart s)) h) =
           crop_y (initialCrop s) + (crop_height (initialCrop s) - newHeight) / 2 \<and>
         crop_y (cropArea (handleMouseMove s e)) =
           max 0 (min (containerHeight - minSize)
             (crop_y (initialCrop s) + (crop_height (initialCrop s) - newHeight) / 2))"
proof -
  have pre: "crop_y (resizeCrop (selectedRatio s) (initialCrop s) deltaX (snd e - snd (dragStart s)) h) =
           crop_y (initialCrop s) + (crop_height (initialCrop s) - newHeight) / 2"
    using assms(3,4,5,7,8) by (auto simp: Let_def constrainToRatio_def)
  show ?thesis
    unfolding handleMouseMove_resize [OF assms(1,2)] constrainToBounds_y
    using pre unfolding assms(6) by simp
qed

text \<open>
  The hypotheses of C10 hold under 9:16 for the east handle dragged 90 to the left, where
  the new height is 140 and \<open>y\<close> is 117.5.
\<close>

theorem horizontal_handle_recentres_witness:
  "isDragging (example_locked_drag 6 E) \<and> dragType (example_locked_drag 6 E) = Some (Handle E) \<and>
   ratio_value (selectedRatio (example_locked_drag 6 E)) = Some (9 / 16) \<and>
   initialCrop (example_locked_drag 6 E) =
      \<lparr>crop_x = 1325 / 8, crop_y = 75 / 2, crop_width = 675 / 4, crop_height = 300\<rparr> \<and>
   dragStart (example_locked_drag 6 E) = (0, 0) \<and>
   crop_y (resizeCrop (selectedRatio (example_locked_drag 6 E)) (initialCrop (example_locked_drag 6 E))
            (- 90) 0 E) = 235 / 2 \<and>
   crop_y (cropArea (handleMouseMove (example_locked_drag 6 E) (-90, 0))) = 235 / 2"
proof -
  have c: "initialCrop (example_locked_drag 6 E) =
      \<lparr>crop_x = 1325 / 8, crop_y = 75 / 2, crop_width = 675 / 4, crop_height = 300\<rparr>"
    "dragStart (example_locked_drag 6 E) = (0, 0)"
    by (simp_all add: example_defs)
  have d: "isDragging (example_locked_drag 6 E)" "dragType (example_locked_drag 6 E) = Some (Handle E)"
    "E = E \<or> E = W"
    "ratio_value (selectedRatio (example_locked_drag 6 E)) = Some (9 / 16)" "(9::real) / 16 \<noteq> 0"
    by (simp_all add: example_defs)
  have n: "(- 90 :: real) = fst (- 90 :: real, 0 :: real) - fst (dragStart (example_locked_drag 6 E))"
    "(315 / 4 :: real) = max minSize (if E = E then crop_width (initialCrop (example_locked_drag 6 E)) + (- 90)
        else crop_width (initialCrop (example_locked_drag 6 E)) - (- 90))"
    "(140 :: real) = (315 / 4) / (9 / 16)"
    unfolding c by (simp_all add: consts_defs)
  show ?thesis
    using c d horizontal_handle_recentres [OF d n] unfolding c by (simp add: consts_defs)
qed

text \<open>
  C10 as stated fails: under 9:16, from the rectangle 168.75 by 300 at (165.625, 37.5),
  the east handle dragged 100 to the right gives a new height above 477, the formula gives
  a negative \<open>y\<close> and the rectangle produced has \<open>y = 0\<close>.
\<close>

theorem horizontal_handle_clamped_counterexample:
  "isDragging (example_locked_drag 6 E) \<and> dragType (example_locked_drag 6 E) = Some (Handle E) \<and>
   ratio_value (selectedRatio (example_locked_drag 6 E)) = Some (9 / 16) \<and>
   initialCrop (example_locked_drag 6 E) =
     \<lparr>crop_x = 1325 / 8, crop_y = 75 / 2, crop_width = 675 / 4, crop_height = 300\<rparr> \<and>
   Rectangle_invariants (initialCrop (example_locked_drag 6 E)) \<and>
   crop_y (cropArea (handleMouseMove (example_locked_drag 6 E) (100, 0))) = 0 \<and>
   crop_y (cropArea (handleMouseMove (example_locked_drag 6 E) (100, 0))) \<noteq>
     75 / 2 + (300 - (675 / 4 + 100) / (9 / 16)) / 2"
  by (simp add: example_defs drag_defs Rectangle_invariants_def)

end
